theory Spec2Isabelle
  imports Complex_Main "HOL-Library.Word"
begin

unbundle bit_operations_syntax

section \<open>Data model of zetes.h\<close>

text \<open>
  The embedding follows the C source function by function. Addresses are natural numbers
  and \<open>0\<close> is the NULL pointer. The sizes of the structs are those of an LP64 target with
  \<open>ZETES_NUMBER_TYPE = double\<close> and \<open>ZETES_ALIGN = 8\<close>. The number type is computed with
  exact reals: rounding of the floating-point type is not modelled.

  The memory the context owns is kept in typed stores keyed by address: the operand-stack
  slots, the bytes of strings, and the array and object headers. The chain of nodes hanging
  from a header (\<open>first\<close>, then \<open>next\<close>, ..., NULL) is kept as the list of the nodes'
  payloads in link order; a NULL node pointer is the empty list and following \<open>next\<close> is
  taking the tail. Every node is still allocated from the arena, so the cursor moves as in
  the source.
\<close>

datatype zetes_result_t =
    ZETES_RESULT_UNINITIALIZED
  | ZETES_RESULT_OK
  | ZETES_RESULT_OUT_OF_MEMORY
  | ZETES_RESULT_STACK_EMPTY
  | ZETES_RESULT_STACK_FULL
  | ZETES_RESULT_INDEX_OUT_OF_BOUNDS
  | ZETES_RESULT_KEY_NOT_FOUND
  | ZETES_RESULT_TYPE_MISMATCH
  | ZETES_RESULT_INVALID_STACK
  | ZETES_RESULT_WRITE_ERROR
  | ZETES_RESULT_READ_ERROR
  | ZETES_RESULT_INVALID_CHARACTER
  | ZETES_RESULT_INVALID_NUMBER
  | ZETES_RESULT_INVALID_STRING
  | ZETES_RESULT_UNKNOWN_KEYWORD
  | ZETES_RESULT_UNEXPECTED_END_OF_INPUT
  | ZETES_RESULT_SYNTAX_ERROR

datatype zetes_type_t =
    ZETES_TYPE_NONE
  | ZETES_TYPE_NULL
  | ZETES_TYPE_BOOL
  | ZETES_TYPE_NUMBER
  | ZETES_TYPE_STRING
  | ZETES_TYPE_ARRAY
  | ZETES_TYPE_OBJECT

type_synonym zetes_number_t = real

type_synonym byte = "8 word"

text \<open>
  The union \<open>zetes_variant_t\<close>. Its three pointer members (\<open>_string\<close>, \<open>_array\<close>,
  \<open>_object\<close>) share one representation, \<open>V_ptr\<close>. Reading a member of another kind than
  the one stored is left unspecified.
\<close>

datatype zetes_variant_t = V_bool bool | V_number zetes_number_t | V_ptr nat

fun v_bool :: "zetes_variant_t \<Rightarrow> bool" where
  "v_bool (V_bool b) = b"

fun v_number :: "zetes_variant_t \<Rightarrow> zetes_number_t" where
  "v_number (V_number x) = x"

fun v_ptr :: "zetes_variant_t \<Rightarrow> nat" where
  "v_ptr (V_ptr a) = a"

record zetes_value_t =
  type :: zetes_type_t
  variant :: zetes_variant_t

record zetes_t =
  result :: zetes_result_t
  buffer_begin :: nat
  buffer_end :: nat
  buffer_ptr :: nat
  stack_begin :: nat
  stack_end :: nat
  stack_ptr :: nat
  temp :: "byte list"
  slots :: "nat \<Rightarrow> zetes_value_t"
  chars :: "nat \<Rightarrow> byte"
  arrays :: "nat \<Rightarrow> zetes_value_t list"
  objects :: "nat \<Rightarrow> (nat \<times> zetes_value_t) list"

definition ZETES_ALIGN :: nat where
  "ZETES_ALIGN = 8"

definition ZETES_TEMP_BUFFER_SIZE :: nat where
  "ZETES_TEMP_BUFFER_SIZE = 16"

definition sizeof_value :: nat where
  "sizeof_value = 16"

definition sizeof_array :: nat where
  "sizeof_array = 16"

definition sizeof_object :: nat where
  "sizeof_object = 16"

definition sizeof_array_element :: nat where
  "sizeof_array_element = 24"

definition sizeof_object_member :: nat where
  "sizeof_object_member = 32"

text \<open>Conversion of a pointer difference to \<open>size_t\<close>: a negative difference wraps.\<close>

definition to_size_t :: "int \<Rightarrow> nat" where
  "to_size_t d = nat (d mod 2 ^ 64)"

text \<open>
  A C string argument, or a C string lying in the arena: the bytes before the first NUL.
  A string in the arena is read up to the end of the buffer at most.
\<close>

definition c_str :: "byte list \<Rightarrow> byte list" where
  "c_str bs = takeWhile (\<lambda>b. b \<noteq> 0) bs"

definition get_string :: "zetes_t \<Rightarrow> nat \<Rightarrow> byte list" where
  "get_string ctx a = c_str (map (chars ctx) [a ..< buffer_end ctx])"

fun memcpy :: "(nat \<Rightarrow> byte) \<Rightarrow> nat \<Rightarrow> byte list \<Rightarrow> (nat \<Rightarrow> byte)" where
  "memcpy m a [] = m"
| "memcpy m a (b # bs) = memcpy (m(a := b)) (Suc a) bs"

section \<open>Arena and life cycle\<close>

definition set_error :: "zetes_t \<Rightarrow> zetes_result_t \<Rightarrow> zetes_t" where
  "set_error ctx r = (if result ctx = ZETES_RESULT_OK then ctx\<lparr>result := r\<rparr> else ctx)"

definition align_ptr :: "nat \<Rightarrow> nat" where
  "align_ptr p = ((p + (ZETES_ALIGN - 1)) div ZETES_ALIGN) * ZETES_ALIGN"

text \<open>The pointer difference \<open>ctx->buffer_end - ctx->buffer_ptr\<close> as a \<open>size_t\<close>.\<close>

definition arena_space :: "zetes_t \<Rightarrow> nat" where
  "arena_space ctx = to_size_t (int (buffer_end ctx) - int (buffer_ptr ctx))"

definition alloc :: "zetes_t \<Rightarrow> nat \<Rightarrow> nat \<times> zetes_t" where
  "alloc ctx sz =
     (let space = arena_space ctx
      in if space < sz then (0, set_error ctx ZETES_RESULT_OUT_OF_MEMORY)
         else (buffer_ptr ctx, ctx\<lparr>buffer_ptr := align_ptr (buffer_ptr ctx + sz)\<rparr>))"

definition zetes_init :: "zetes_t \<Rightarrow> nat \<Rightarrow> nat \<Rightarrow> nat \<Rightarrow> zetes_result_t \<times> zetes_t" where
  "zetes_init ctx stack_depth buffer buffer_size =
     (let ctx1 = ctx\<lparr>result := ZETES_RESULT_OK,
                     buffer_begin := buffer,
                     buffer_end := buffer + buffer_size,
                     buffer_ptr := align_ptr buffer\<rparr>;
          (p, ctx2) = alloc ctx1 (stack_depth * sizeof_value);
          ctx3 = ctx2\<lparr>stack_begin := p,
                      stack_end := p + stack_depth * sizeof_value,
                      stack_ptr := p + stack_depth * sizeof_value\<rparr>
      in (result ctx3, ctx3))"

definition zetes_cleanup :: "zetes_t \<Rightarrow> zetes_t" where
  "zetes_cleanup ctx =
     ctx\<lparr>result := ZETES_RESULT_UNINITIALIZED,
         buffer_begin := 0, buffer_end := 0, buffer_ptr := 0,
         stack_begin := 0, stack_end := 0, stack_ptr := 0\<rparr>"

definition zetes_reset :: "zetes_t \<Rightarrow> zetes_t" where
  "zetes_reset ctx =
     ctx\<lparr>result := ZETES_RESULT_OK,
         buffer_ptr := buffer_begin ctx,
         stack_ptr := stack_end ctx\<rparr>"

definition zetes_result :: "zetes_t \<Rightarrow> zetes_result_t" where
  "zetes_result ctx = result ctx"

definition ok :: "zetes_t \<Rightarrow> bool" where
  "ok ctx = (result ctx = ZETES_RESULT_OK)"

section \<open>Operand stack\<close>

definition stack_emplace :: "zetes_t \<Rightarrow> nat \<times> zetes_t" where
  "stack_emplace ctx =
     (if ok ctx then
        (if stack_ptr ctx > stack_begin ctx
         then (stack_ptr ctx - sizeof_value, ctx\<lparr>stack_ptr := stack_ptr ctx - sizeof_value\<rparr>)
         else (0, set_error ctx ZETES_RESULT_STACK_FULL))
      else (0, ctx))"

text \<open>The pointer difference \<open>ctx->stack_end - ctx->stack_ptr\<close>, in slots, as a \<open>size_t\<close>.\<close>

definition stack_count :: "zetes_t \<Rightarrow> nat" where
  "stack_count ctx = to_size_t ((int (stack_end ctx) - int (stack_ptr ctx)) div int sizeof_value)"

definition stack_validate :: "zetes_t \<Rightarrow> nat \<Rightarrow> bool \<times> zetes_t" where
  "stack_validate ctx min_depth =
     (if ok ctx then
        (if stack_count ctx \<ge> min_depth
         then (True, ctx)
         else (False, set_error ctx ZETES_RESULT_STACK_EMPTY))
      else (False, ctx))"

definition type_validate :: "zetes_t \<Rightarrow> zetes_type_t \<Rightarrow> zetes_type_t \<Rightarrow> bool \<times> zetes_t" where
  "type_validate ctx expected actual =
     (if expected = actual then (True, ctx)
      else (False, set_error ctx ZETES_RESULT_TYPE_MISMATCH))"

text \<open>
  The guard \<open>stack_validate(ctx, n) && type_validate(ctx, t, p->type)\<close> of the typed
  operations: the type is read only when the depth check has passed.
\<close>

definition validate :: "zetes_t \<Rightarrow> nat \<Rightarrow> zetes_type_t \<Rightarrow> nat \<Rightarrow> bool \<times> zetes_t" where
  "validate ctx min_depth expected p =
     (let (v, ctx1) = stack_validate ctx min_depth
      in if v then type_validate ctx1 expected (type (slots ctx1 p)) else (False, ctx1))"

definition set_slot :: "zetes_t \<Rightarrow> nat \<Rightarrow> zetes_value_t \<Rightarrow> zetes_t" where
  "set_slot ctx p v = ctx\<lparr>slots := (slots ctx)(p := v)\<rparr>"

definition zetes_push_null :: "zetes_t \<Rightarrow> zetes_t" where
  "zetes_push_null ctx =
     (let (slot, ctx1) = stack_emplace ctx
      in if slot \<noteq> 0
         then set_slot ctx1 slot ((slots ctx1 slot)\<lparr>type := ZETES_TYPE_NULL\<rparr>)
         else ctx1)"

definition zetes_push_bool :: "zetes_t \<Rightarrow> bool \<Rightarrow> zetes_t" where
  "zetes_push_bool ctx v =
     (let (slot, ctx1) = stack_emplace ctx
      in if slot \<noteq> 0
         then set_slot ctx1 slot \<lparr>type = ZETES_TYPE_BOOL, variant = V_bool v\<rparr>
         else ctx1)"

definition zetes_push_number :: "zetes_t \<Rightarrow> zetes_number_t \<Rightarrow> zetes_t" where
  "zetes_push_number ctx v =
     (let (slot, ctx1) = stack_emplace ctx
      in if slot \<noteq> 0
         then set_slot ctx1 slot \<lparr>type = ZETES_TYPE_NUMBER, variant = V_number v\<rparr>
         else ctx1)"

definition zetes_push_string :: "zetes_t \<Rightarrow> byte list \<Rightarrow> zetes_t" where
  "zetes_push_string ctx v =
     (let (slot, ctx1) = stack_emplace ctx
      in if slot \<noteq> 0 then
           (let len = length (c_str v) + 1;
                (str, ctx2) = alloc ctx1 len
            in if str \<noteq> 0
               then set_slot (ctx2\<lparr>chars := memcpy (chars ctx2) str (c_str v @ [0])\<rparr>) slot
                      \<lparr>type = ZETES_TYPE_STRING, variant = V_ptr str\<rparr>
               else ctx2)
         else ctx1)"

definition zetes_push_new_array :: "zetes_t \<Rightarrow> zetes_t" where
  "zetes_push_new_array ctx =
     (let (slot, ctx1) = stack_emplace ctx
      in if slot \<noteq> 0 then
           (let (array, ctx2) = alloc ctx1 sizeof_array
            in if array \<noteq> 0
               then set_slot (ctx2\<lparr>arrays := (arrays ctx2)(array := [])\<rparr>) slot
                      \<lparr>type = ZETES_TYPE_ARRAY, variant = V_ptr array\<rparr>
               else ctx2)
         else ctx1)"

definition zetes_push_new_object :: "zetes_t \<Rightarrow> zetes_t" where
  "zetes_push_new_object ctx =
     (let (slot, ctx1) = stack_emplace ctx
      in if slot \<noteq> 0 then
           (let (object, ctx2) = alloc ctx1 sizeof_object
            in if object \<noteq> 0
               then set_slot (ctx2\<lparr>objects := (objects ctx2)(object := [])\<rparr>) slot
                      \<lparr>type = ZETES_TYPE_OBJECT, variant = V_ptr object\<rparr>
               else ctx2)
         else ctx1)"

definition zetes_type :: "zetes_t \<Rightarrow> zetes_type_t \<times> zetes_t" where
  "zetes_type ctx =
     (let (v, ctx1) = stack_validate ctx 1
      in if v then (type (slots ctx1 (stack_ptr ctx1)), ctx1) else (ZETES_TYPE_NONE, ctx1))"

definition stack_pop :: "zetes_t \<Rightarrow> zetes_t" where
  "stack_pop ctx = ctx\<lparr>stack_ptr := stack_ptr ctx + sizeof_value\<rparr>"

definition zetes_pop :: "zetes_t \<Rightarrow> zetes_t" where
  "zetes_pop ctx =
     (let (v, ctx1) = stack_validate ctx 1
      in if v then stack_pop ctx1 else ctx1)"

definition zetes_pop_null :: "zetes_t \<Rightarrow> zetes_t" where
  "zetes_pop_null ctx =
     (let (v, ctx1) = validate ctx 1 ZETES_TYPE_NULL (stack_ptr ctx)
      in if v then stack_pop ctx1 else ctx1)"

definition zetes_pop_bool :: "zetes_t \<Rightarrow> bool \<times> zetes_t" where
  "zetes_pop_bool ctx =
     (let (v, ctx1) = validate ctx 1 ZETES_TYPE_BOOL (stack_ptr ctx)
      in if v then (v_bool (variant (slots ctx1 (stack_ptr ctx1))), stack_pop ctx1)
         else (False, ctx1))"

definition zetes_pop_number :: "zetes_t \<Rightarrow> zetes_number_t \<times> zetes_t" where
  "zetes_pop_number ctx =
     (let (v, ctx1) = validate ctx 1 ZETES_TYPE_NUMBER (stack_ptr ctx)
      in if v then (v_number (variant (slots ctx1 (stack_ptr ctx1))), stack_pop ctx1)
         else (0, ctx1))"

definition zetes_pop_string :: "zetes_t \<Rightarrow> nat \<times> zetes_t" where
  "zetes_pop_string ctx =
     (let (v, ctx1) = validate ctx 1 ZETES_TYPE_STRING (stack_ptr ctx)
      in if v then (v_ptr (variant (slots ctx1 (stack_ptr ctx1))), stack_pop ctx1)
         else (0, ctx1))"

section \<open>Arrays\<close>

fun array_size_loop :: "zetes_value_t list \<Rightarrow> nat \<Rightarrow> nat" where
  "array_size_loop [] n = n"
| "array_size_loop (e # element) n = array_size_loop element (n + 1)"

definition zetes_array_size :: "zetes_t \<Rightarrow> nat \<times> zetes_t" where
  "zetes_array_size ctx =
     (let (v, ctx1) = validate ctx 1 ZETES_TYPE_ARRAY (stack_ptr ctx)
      in if v then
           (let array = v_ptr (variant (slots ctx1 (stack_ptr ctx1)))
            in (array_size_loop (arrays ctx1 array) 0, ctx1))
         else (0, ctx1))"

text \<open>
  The loop \<open>while (element && index) { index--; }\<close> of \<open>zetes_array_index\<close>: the index
  is counted down and \<open>element\<close> is not moved.
\<close>

function array_index_loop :: "zetes_value_t list \<Rightarrow> nat \<Rightarrow> zetes_value_t list" where
  "array_index_loop element index =
     (if element \<noteq> [] \<and> index \<noteq> 0 then array_index_loop element (index - 1) else element)"
  by pat_completeness auto
termination
  by (relation "measure (\<lambda>(element, index). index)") auto

declare array_index_loop.simps [simp del]

definition zetes_array_index :: "zetes_t \<Rightarrow> nat \<Rightarrow> zetes_t" where
  "zetes_array_index ctx index =
     (let (v, ctx1) = validate ctx 1 ZETES_TYPE_ARRAY (stack_ptr ctx)
      in if v then
           (let array = v_ptr (variant (slots ctx1 (stack_ptr ctx1)));
                element = array_index_loop (arrays ctx1 array) index
            in case element of
                 e # _ \<Rightarrow>
                   (let (slot, ctx2) = stack_emplace ctx1
                    in if slot \<noteq> 0 then set_slot ctx2 slot e else ctx2)
               | [] \<Rightarrow> set_error ctx1 ZETES_RESULT_INDEX_OUT_OF_BOUNDS)
         else ctx1)"

definition zetes_array_append :: "zetes_t \<Rightarrow> zetes_t" where
  "zetes_array_append ctx =
     (let array_value = stack_ptr ctx + sizeof_value;
          (v, ctx1) = validate ctx 2 ZETES_TYPE_ARRAY array_value
      in if v then
           (let array = v_ptr (variant (slots ctx1 array_value));
                (element, ctx2) = alloc ctx1 sizeof_array_element
            in if element \<noteq> 0 then
                 (let e = slots ctx2 (stack_ptr ctx2);
                      ctx3 = stack_pop ctx2
                  in ctx3\<lparr>arrays := (arrays ctx3)(array := arrays ctx3 array @ [e])\<rparr>)
               else ctx2)
         else ctx1)"

section \<open>Objects\<close>

text \<open>
  A member node is the pair of its key pointer and its value. The guards of
  \<open>zetes_object_size\<close> and \<open>zetes_object_index\<close> compare the tag of the top with
  \<open>ZETES_TYPE_ARRAY\<close>, as the source does. Arrays and objects are kept in two stores
  here: on a top that is an Array with elements, where the source goes through the
  nodes of the array as if they were members, these two functions read the entry of
  the object store at that address. On an Object, on an empty Array and on every other
  top they do what the source does.
\<close>

fun object_size_loop :: "(nat \<times> zetes_value_t) list \<Rightarrow> nat \<Rightarrow> nat" where
  "object_size_loop [] n = n"
| "object_size_loop (m # member) n = object_size_loop member (n + 1)"

definition zetes_object_size :: "zetes_t \<Rightarrow> nat \<times> zetes_t" where
  "zetes_object_size ctx =
     (let (v, ctx1) = validate ctx 1 ZETES_TYPE_ARRAY (stack_ptr ctx)
      in if v then
           (let object = v_ptr (variant (slots ctx1 (stack_ptr ctx1)))
            in (object_size_loop (objects ctx1 object) 0, ctx1))
         else (0, ctx1))"

function object_index_loop ::
    "(nat \<times> zetes_value_t) list \<Rightarrow> nat \<Rightarrow> (nat \<times> zetes_value_t) list" where
  "object_index_loop member index =
     (if member \<noteq> [] \<and> index \<noteq> 0 then object_index_loop (tl member) (index - 1) else member)"
  by pat_completeness auto
termination
  by (relation "measure (\<lambda>(member, index). index)") auto

declare object_index_loop.simps [simp del]

definition zetes_object_index :: "zetes_t \<Rightarrow> nat \<Rightarrow> zetes_t" where
  "zetes_object_index ctx index =
     (let (v, ctx1) = validate ctx 1 ZETES_TYPE_ARRAY (stack_ptr ctx)
      in if v then
           (let object = v_ptr (variant (slots ctx1 (stack_ptr ctx1)));
                member = object_index_loop (objects ctx1 object) index
            in case member of
                 m # _ \<Rightarrow>
                   (let (slot, ctx2) = stack_emplace ctx1;
                        ctx3 = (if slot \<noteq> 0 then set_slot ctx2 slot (snd m) else ctx2);
                        (slot', ctx4) = stack_emplace ctx3
                    in if slot' \<noteq> 0
                       then set_slot ctx4 slot' \<lparr>type = ZETES_TYPE_STRING, variant = V_ptr (fst m)\<rparr>
                       else ctx4)
               | [] \<Rightarrow> set_error ctx1 ZETES_RESULT_INDEX_OUT_OF_BOUNDS)
         else ctx1)"

text \<open>
  The search loop shared by \<open>zetes_object_has\<close>, \<open>zetes_object_get\<close>,
  \<open>zetes_object_set\<close> and \<open>object_set_with_interned_key\<close>: it stops at the first member
  whose key compares equal (\<open>strcmp(member->key, key) == 0\<close>) and yields the chain from
  that member on, or NULL.
\<close>

fun find_member ::
    "zetes_t \<Rightarrow> (nat \<times> zetes_value_t) list \<Rightarrow> byte list \<Rightarrow> (nat \<times> zetes_value_t) list" where
  "find_member ctx [] key = []"
| "find_member ctx (m # member) key =
     (if get_string ctx (fst m) = key then m # member else find_member ctx member key)"

text \<open>The assignment \<open>member->value = v\<close> to the member the search has found.\<close>

fun assign_member ::
    "zetes_t \<Rightarrow> (nat \<times> zetes_value_t) list \<Rightarrow> byte list \<Rightarrow> zetes_value_t \<Rightarrow>
     (nat \<times> zetes_value_t) list" where
  "assign_member ctx [] key v = []"
| "assign_member ctx (m # member) key v =
     (if get_string ctx (fst m) = key then (fst m, v) # member
      else m # assign_member ctx member key v)"

definition zetes_object_has :: "zetes_t \<Rightarrow> byte list \<Rightarrow> bool \<times> zetes_t" where
  "zetes_object_has ctx key =
     (let (v, ctx1) = validate ctx 1 ZETES_TYPE_OBJECT (stack_ptr ctx)
      in if v then
           (let object = v_ptr (variant (slots ctx1 (stack_ptr ctx1)))
            in (find_member ctx1 (objects ctx1 object) (c_str key) \<noteq> [], ctx1))
         else (False, ctx1))"

definition zetes_object_get :: "zetes_t \<Rightarrow> byte list \<Rightarrow> zetes_t" where
  "zetes_object_get ctx key =
     (let (v, ctx1) = validate ctx 1 ZETES_TYPE_OBJECT (stack_ptr ctx)
      in if v then
           (let object = v_ptr (variant (slots ctx1 (stack_ptr ctx1)));
                member = find_member ctx1 (objects ctx1 object) (c_str key)
            in case member of
                 m # _ \<Rightarrow>
                   (let (slot, ctx2) = stack_emplace ctx1
                    in if slot \<noteq> 0 then set_slot ctx2 slot (snd m) else ctx2)
               | [] \<Rightarrow> set_error ctx1 ZETES_RESULT_KEY_NOT_FOUND)
         else ctx1)"

definition zetes_object_set :: "zetes_t \<Rightarrow> byte list \<Rightarrow> zetes_t" where
  "zetes_object_set ctx key =
     (let object_value = stack_ptr ctx + sizeof_value;
          (v, ctx1) = validate ctx 2 ZETES_TYPE_OBJECT object_value
      in if v then
           (let object = v_ptr (variant (slots ctx1 object_value));
                member = find_member ctx1 (objects ctx1 object) (c_str key)
            in if member \<noteq> [] then
                 (let e = slots ctx1 (stack_ptr ctx1);
                      ctx2 = stack_pop ctx1
                  in ctx2\<lparr>objects := (objects ctx2)
                            (object := assign_member ctx2 (objects ctx2 object) (c_str key) e)\<rparr>)
               else
                 (let key_len = length (c_str key) + 1;
                      (new_key, ctx2) = alloc ctx1 key_len
                  in if new_key \<noteq> 0 then
                       (let ctx3 = ctx2\<lparr>chars := memcpy (chars ctx2) new_key (c_str key @ [0])\<rparr>;
                            (member', ctx4) = alloc ctx3 sizeof_object_member
                        in if member' \<noteq> 0 then
                             (let e = slots ctx4 (stack_ptr ctx4);
                                  ctx5 = stack_pop ctx4
                              in ctx5\<lparr>objects := (objects ctx5)
                                        (object := objects ctx5 object @ [(new_key, e)])\<rparr>)
                           else ctx4)
                     else ctx2))
         else ctx1)"

definition object_set_with_interned_key :: "zetes_t \<Rightarrow> nat \<Rightarrow> zetes_t" where
  "object_set_with_interned_key ctx key =
     (let object_value = stack_ptr ctx + sizeof_value;
          (v, ctx1) = validate ctx 2 ZETES_TYPE_OBJECT object_value
      in if v then
           (let object = v_ptr (variant (slots ctx1 object_value));
                member = find_member ctx1 (objects ctx1 object) (get_string ctx1 key)
            in if member \<noteq> [] then
                 (let e = slots ctx1 (stack_ptr ctx1);
                      ctx2 = stack_pop ctx1
                  in ctx2\<lparr>objects := (objects ctx2)
                            (object := assign_member ctx2 (objects ctx2 object)
                                         (get_string ctx2 key) e)\<rparr>)
               else
                 (let (member', ctx2) = alloc ctx1 sizeof_object_member
                  in if member' \<noteq> 0 then
                       (let e = slots ctx2 (stack_ptr ctx2);
                            ctx3 = stack_pop ctx2
                        in ctx3\<lparr>objects := (objects ctx3)
                                  (object := objects ctx3 object @ [(key, e)])\<rparr>)
                     else ctx2))
         else ctx1)"

section \<open>Writer\<close>

text \<open>
  The output callback is a script: the values it returns on its next calls. A negative value
  is a transport failure; a non-negative value is the count of bytes it accepts of those
  offered (never more than offered). When the script is used up the callback accepts all
  it is offered. \<open>w_output\<close> collects the bytes the callback has accepted.
\<close>

record wstate_t =
  w_ctx :: zetes_t
  w_script :: "int list"
  w_output :: "byte list"

definition SYMBOL_KEY_VAL_SEPARATOR :: "byte list" where "SYMBOL_KEY_VAL_SEPARATOR = [0x3A]"
definition SYMBOL_COMMA :: "byte list" where "SYMBOL_COMMA = [0x2C]"
definition SYMBOL_OBJECT_OPEN :: "byte list" where "SYMBOL_OBJECT_OPEN = [0x7B]"
definition SYMBOL_OBJECT_CLOSE :: "byte list" where "SYMBOL_OBJECT_CLOSE = [0x7D]"
definition SYMBOL_ARRAY_OPEN :: "byte list" where "SYMBOL_ARRAY_OPEN = [0x5B]"
definition SYMBOL_ARRAY_CLOSE :: "byte list" where "SYMBOL_ARRAY_CLOSE = [0x5D]"
definition SYMBOL_STRING_DELIM :: "byte list" where "SYMBOL_STRING_DELIM = [0x22]"
definition SYMBOL_NULL :: "byte list" where "SYMBOL_NULL = [0x6E, 0x75, 0x6C, 0x6C]"
definition SYMBOL_FALSE :: "byte list" where "SYMBOL_FALSE = [0x66, 0x61, 0x6C, 0x73, 0x65]"
definition SYMBOL_TRUE :: "byte list" where "SYMBOL_TRUE = [0x74, 0x72, 0x75, 0x65]"

function write_all :: "wstate_t \<Rightarrow> byte list \<Rightarrow> bool \<times> wstate_t" where
  "write_all st bs =
     (if bs = [] then (True, st)
      else (case w_script st of
              [] \<Rightarrow> (True, st\<lparr>w_output := w_output st @ bs\<rparr>)
            | r # rs \<Rightarrow>
                if r < 0
                then (False, st\<lparr>w_script := rs,
                                w_ctx := set_error (w_ctx st) ZETES_RESULT_WRITE_ERROR\<rparr>)
                else write_all (st\<lparr>w_script := rs, w_output := w_output st @ take (nat r) bs\<rparr>)
                       (drop (nat r) bs)))"
  by pat_completeness auto
termination
  by (relation "measure (\<lambda>(st, bs). length (w_script st))") auto

declare write_all.simps [simp del]

definition write_bool :: "wstate_t \<Rightarrow> bool \<Rightarrow> bool \<times> wstate_t" where
  "write_bool st v = (if v then write_all st SYMBOL_TRUE else write_all st SYMBOL_FALSE)"

text \<open>
  \<open>snprintf(temp, ZETES_TEMP_BUFFER_SIZE, "%.9g", value)\<close> is the C library's: its
  rendering of a number is the parameter \<open>fmt\<close>. It stores at most fifteen characters
  and a NUL in \<open>temp\<close> and returns the length of the whole rendering, of which
  \<open>write_all\<close> then sends that many bytes of \<open>temp\<close>.
\<close>

definition store_temp :: "zetes_t \<Rightarrow> byte list \<Rightarrow> zetes_t" where
  "store_temp ctx bs = ctx\<lparr>temp := bs @ drop (length bs) (temp ctx)\<rparr>"

definition write_number ::
    "(zetes_number_t \<Rightarrow> byte list) \<Rightarrow> wstate_t \<Rightarrow> zetes_number_t \<Rightarrow> bool \<times> wstate_t" where
  "write_number fmt st v =
     (let len = length (fmt v);
          ctx1 = store_temp (w_ctx st) (take (ZETES_TEMP_BUFFER_SIZE - 1) (fmt v) @ [0])
      in write_all (st\<lparr>w_ctx := ctx1\<rparr>) (take len (temp ctx1)))"

definition HEX_LUT :: "byte list" where
  "HEX_LUT = [0x30, 0x31, 0x32, 0x33, 0x34, 0x35, 0x36, 0x37, 0x38, 0x39,
              0x41, 0x42, 0x43, 0x44, 0x45, 0x46]"

definition write_escape_code :: "wstate_t \<Rightarrow> 16 word \<Rightarrow> bool \<times> wstate_t" where
  "write_escape_code st code =
     (let ctx1 = store_temp (w_ctx st)
                   [0x5C, 0x75,
                    HEX_LUT ! unat (drop_bit 12 code AND 0xF),
                    HEX_LUT ! unat (drop_bit 8 code AND 0xF),
                    HEX_LUT ! unat (drop_bit 4 code AND 0xF),
                    HEX_LUT ! unat (drop_bit 0 code AND 0xF)]
      in write_all (st\<lparr>w_ctx := ctx1\<rparr>) (take 6 (temp ctx1)))"

definition escaped :: "byte \<Rightarrow> bool" where
  "escaped c = (c < 0x20 \<or> c > 0x7E \<or> c = 0x2F \<or> c = 0x22 \<or> c = 0x5C \<or> c = 0x27)"

definition OFFSETS :: "nat list" where
  "OFFSETS = [0x00000000, 0x00003080, 0x000E2080, 0x03C82080, 0xFA082080, 0x82082080]"

definition TRAILING :: "nat list" where
  "TRAILING = replicate 192 0 @ replicate 32 1 @ replicate 16 2 @ replicate 8 3 @
              replicate 4 4 @ replicate 4 5"

text \<open>
  \<open>decode_utf8(input_i, input_e, &code)\<close>: the argument is the bytes from \<open>input_i\<close> up to
  \<open>input_e\<close>, the result the returned length and the value left in \<open>code\<close>. The code
  point is gathered in sixteen bits. The \<open>switch\<close> falls through from its case to case 0;
  for four or five trailing bytes no case matches.
\<close>

definition decode_utf8 :: "byte list \<Rightarrow> 16 word \<Rightarrow> int \<times> 16 word" where
  "decode_utf8 input code =
     (if input = [] then (0, code)
      else
        (let trailing = TRAILING ! unat (hd input)
         in if trailing \<ge> length input then (-1, code)
            else
              (let (cp3, in3) = (if trailing = 3
                                 then (push_bit 6 (0 + ucast (hd input)), tl input)
                                 else (0 :: 16 word, input));
                   (cp2, in2) = (if trailing = 3 \<or> trailing = 2
                                 then (push_bit 6 (cp3 + ucast (hd in3)), tl in3)
                                 else (cp3, in3));
                   (cp1, in1) = (if trailing = 3 \<or> trailing = 2 \<or> trailing = 1
                                 then (push_bit 6 (cp2 + ucast (hd in2)), tl in2)
                                 else (cp2, in2));
                   cp0 = (if trailing \<le> 3 then cp1 + ucast (hd in1) else cp1)
               in (int trailing + 1, cp0 - of_nat (OFFSETS ! trailing)))))"

text \<open>
  The body of \<open>if (str_i < str_e) { ... }\<close> in \<open>write_string\<close>: the byte at \<open>str_i\<close>
  needs escaping. The result is \<open>result\<close>, \<open>len\<close> and the state.
\<close>

definition write_escape :: "wstate_t \<Rightarrow> byte list \<Rightarrow> bool \<times> int \<times> wstate_t" where
  "write_escape st s =
     (let c = hd s
      in if c = 0x22 then (let (r, st1) = write_all st [0x5C, 0x22] in (r, 1, st1))
         else if c = 0x5C then (let (r, st1) = write_all st [0x5C, 0x5C] in (r, 1, st1))
         else if c = 0x2F then (let (r, st1) = write_all st [0x5C, 0x2F] in (r, 1, st1))
         else if c = 0x08 then (let (r, st1) = write_all st [0x5C, 0x62] in (r, 1, st1))
         else if c = 0x0C then (let (r, st1) = write_all st [0x5C, 0x66] in (r, 1, st1))
         else if c = 0x0A then (let (r, st1) = write_all st [0x5C, 0x6E] in (r, 1, st1))
         else if c = 0x0D then (let (r, st1) = write_all st [0x5C, 0x72] in (r, 1, st1))
         else if c = 0x09 then (let (r, st1) = write_all st [0x5C, 0x74] in (r, 1, st1))
         else
           (let (len, code) = decode_utf8 s (scast c)
            in if len \<ge> 0
               then (let (r, st1) = write_escape_code st code in (r, len, st1))
               else (False, len, st)))"

lemma decode_utf8_len: "s \<noteq> [] \<Longrightarrow> fst (decode_utf8 s code) = -1 \<or> fst (decode_utf8 s code) \<ge> 1"
  by (simp add: decode_utf8_def Let_def split: prod.splits)

lemma write_escape_len:
  "s \<noteq> [] \<Longrightarrow> write_escape st s = (True, len, st1) \<Longrightarrow> len \<ge> 1"
  using decode_utf8_len[of s "scast (hd s)"]
  by (auto simp: write_escape_def Let_def split: prod.splits if_splits)

lemma write_string_loop_measure:
  assumes "(True, len, st2) = write_escape st1 (dropWhile (\<lambda>c. \<not> escaped c) s)"
    and "xb \<in> set s" and "escaped xb"
  shows "length (dropWhile (\<lambda>c. \<not> escaped c) s) - nat len < length s"
proof -
  let ?rest = "dropWhile (\<lambda>c. \<not> escaped c) s"
  have ne: "?rest \<noteq> []" using assms(2,3) by (auto simp: dropWhile_eq_Nil_conv)
  have "len \<ge> 1" using write_escape_len[OF ne assms(1)[symmetric]] .
  moreover have "length ?rest \<le> length s" by (rule length_dropWhile_le)
  moreover have "length ?rest > 0" using ne by simp
  ultimately show ?thesis by linarith
qed

function write_string_loop :: "wstate_t \<Rightarrow> byte list \<Rightarrow> bool \<times> wstate_t" where
  "write_string_loop st s =
     (if s = [] then (True, st)
      else
        (let run = takeWhile (\<lambda>c. \<not> escaped c) s;
             rest = dropWhile (\<lambda>c. \<not> escaped c) s;
             (r1, st1) = (if run \<noteq> [] then write_all st run else (True, st))
         in if \<not> r1 then (False, st1)
            else if rest \<noteq> [] then
              (case write_escape st1 rest of
                 (res, len, st2) \<Rightarrow>
                   if \<not> res then (False, st2)
                   else write_string_loop st2 (drop (nat len) rest))
            else (True, st1)))"
  by pat_completeness auto
termination
  by (relation "measure (\<lambda>(st, s). length s)") (auto intro: write_string_loop_measure)

declare write_string_loop.simps [simp del]

definition write_string :: "wstate_t \<Rightarrow> nat \<Rightarrow> bool \<times> wstate_t" where
  "write_string st v =
     (let s = get_string (w_ctx st) v;
          (r0, st0) = write_all st SYMBOL_STRING_DELIM
      in if \<not> r0 then (False, st0)
         else (let (r1, st1) = write_string_loop st0 s
               in if \<not> r1 then (False, st1)
                  else write_all st1 SYMBOL_STRING_DELIM))"

text \<open>
  \<open>write_value\<close> and the functions it calls recurse through the store. The first
  argument bounds the depth of the recursion: the result is \<open>None\<close> when it is used up.
  \<open>write_array_loop\<close> and \<open>write_object_loop\<close> are the \<open>while\<close> loops of
  \<open>write_array\<close> and \<open>write_object\<close>.
\<close>

function (sequential)
    write_value :: "nat \<Rightarrow> (zetes_number_t \<Rightarrow> byte list) \<Rightarrow> wstate_t \<Rightarrow> zetes_value_t \<Rightarrow>
                    (bool \<times> wstate_t) option"
and write_array :: "nat \<Rightarrow> (zetes_number_t \<Rightarrow> byte list) \<Rightarrow> wstate_t \<Rightarrow> zetes_value_t list \<Rightarrow>
                    (bool \<times> wstate_t) option"
and write_array_loop :: "nat \<Rightarrow> (zetes_number_t \<Rightarrow> byte list) \<Rightarrow> wstate_t \<Rightarrow>
                    zetes_value_t list \<Rightarrow> (bool \<times> wstate_t) option"
and write_member :: "nat \<Rightarrow> (zetes_number_t \<Rightarrow> byte list) \<Rightarrow> wstate_t \<Rightarrow>
                    (nat \<times> zetes_value_t) \<Rightarrow> (bool \<times> wstate_t) option"
and write_object :: "nat \<Rightarrow> (zetes_number_t \<Rightarrow> byte list) \<Rightarrow> wstate_t \<Rightarrow>
                    (nat \<times> zetes_value_t) list \<Rightarrow> (bool \<times> wstate_t) option"
and write_object_loop :: "nat \<Rightarrow> (zetes_number_t \<Rightarrow> byte list) \<Rightarrow> wstate_t \<Rightarrow>
                    (nat \<times> zetes_value_t) list \<Rightarrow> (bool \<times> wstate_t) option"
where
  "write_value 0 fmt st v = None"
| "write_value (Suc n) fmt st v =
     (case type v of
        ZETES_TYPE_NULL \<Rightarrow> Some (write_all st SYMBOL_NULL)
      | ZETES_TYPE_BOOL \<Rightarrow> Some (write_bool st (v_bool (variant v)))
      | ZETES_TYPE_NUMBER \<Rightarrow> Some (write_number fmt st (v_number (variant v)))
      | ZETES_TYPE_STRING \<Rightarrow> Some (write_string st (v_ptr (variant v)))
      | ZETES_TYPE_ARRAY \<Rightarrow> write_array n fmt st (arrays (w_ctx st) (v_ptr (variant v)))
      | ZETES_TYPE_OBJECT \<Rightarrow> write_object n fmt st (objects (w_ctx st) (v_ptr (variant v)))
      | ZETES_TYPE_NONE \<Rightarrow>
          Some (False, st\<lparr>w_ctx := set_error (w_ctx st) ZETES_RESULT_INVALID_STACK\<rparr>))"
| "write_array n fmt st element =
     (let (r0, st0) = write_all st SYMBOL_ARRAY_OPEN
      in if \<not> r0 then Some (False, st0)
         else (case element of
                 [] \<Rightarrow> write_array_loop n fmt st0 []
               | e # next \<Rightarrow>
                   (case write_value n fmt st0 e of
                      None \<Rightarrow> None
                    | Some (r1, st1) \<Rightarrow>
                        if \<not> r1 then Some (False, st1) else write_array_loop n fmt st1 next)))"
| "write_array_loop n fmt st [] = Some (write_all st SYMBOL_ARRAY_CLOSE)"
| "write_array_loop n fmt st (e # next) =
     (let (r0, st0) = write_all st SYMBOL_COMMA
      in if \<not> r0 then Some (False, st0)
         else (case write_value n fmt st0 e of
                 None \<Rightarrow> None
               | Some (r1, st1) \<Rightarrow>
                   if \<not> r1 then Some (False, st1) else write_array_loop n fmt st1 next))"
| "write_member n fmt st m =
     (let (r0, st0) = write_string st (fst m)
      in if \<not> r0 then Some (False, st0)
         else (let (r1, st1) = write_all st0 SYMBOL_KEY_VAL_SEPARATOR
               in if \<not> r1 then Some (False, st1) else write_value n fmt st1 (snd m)))"
| "write_object n fmt st member =
     (let (r0, st0) = write_all st SYMBOL_OBJECT_OPEN
      in if \<not> r0 then Some (False, st0)
         else (case member of
                 [] \<Rightarrow> write_object_loop n fmt st0 []
               | m # next \<Rightarrow>
                   (case write_member n fmt st0 m of
                      None \<Rightarrow> None
                    | Some (r1, st1) \<Rightarrow>
                        if \<not> r1 then Some (False, st1) else write_object_loop n fmt st1 next)))"
| "write_object_loop n fmt st [] = Some (write_all st SYMBOL_OBJECT_CLOSE)"
| "write_object_loop n fmt st (m # next) =
     (let (r0, st0) = write_all st SYMBOL_COMMA
      in if \<not> r0 then Some (False, st0)
         else (case write_member n fmt st0 m of
                 None \<Rightarrow> None
               | Some (r1, st1) \<Rightarrow>
                   if \<not> r1 then Some (False, st1) else write_object_loop n fmt st1 next))"
  by pat_completeness auto
termination
  by (relation "(\<lambda>x. case x of
        Inl (Inl (n, _, _, _)) \<Rightarrow> 4 * n
      | Inl (Inr (Inl (n, _, _, _))) \<Rightarrow> 4 * n + 3
      | Inl (Inr (Inr (n, _, _, xs))) \<Rightarrow> 4 * n + 2
      | Inr (Inl (n, _, _, _)) \<Rightarrow> 4 * n + 1
      | Inr (Inr (Inl (n, _, _, _))) \<Rightarrow> 4 * n + 3
      | Inr (Inr (Inr (n, _, _, xs))) \<Rightarrow> 4 * n + 2) <*mlex*> measure (\<lambda>x. case x of
        Inl (Inr (Inr (_, _, _, xs))) \<Rightarrow> length xs
      | Inr (Inr (Inr (_, _, _, xs))) \<Rightarrow> length xs
      | _ \<Rightarrow> 0)")
    (auto simp: wf_mlex mlex_prod_def simp del: write_all.simps)

text \<open>
  \<open>zetes_write\<close>: the callback is given by its script. The result is the returned status
  and the writer's state, which holds the context and the bytes sent.
\<close>

definition zetes_write ::
    "nat \<Rightarrow> (zetes_number_t \<Rightarrow> byte list) \<Rightarrow> zetes_t \<Rightarrow> int list \<Rightarrow>
     (zetes_result_t \<times> wstate_t) option" where
  "zetes_write fuel fmt ctx script =
     (if ok ctx then
        (let (v, ctx1) = stack_validate ctx 1
         in if v then
              (case write_value fuel fmt \<lparr>w_ctx = ctx1, w_script = script, w_output = []\<rparr>
                      (slots ctx1 (stack_ptr ctx1)) of
                 None \<Rightarrow> None
               | Some (r, st) \<Rightarrow> Some (result (w_ctx st), st))
            else Some (result ctx1, \<lparr>w_ctx = ctx1, w_script = script, w_output = []\<rparr>))
      else Some (result ctx, \<lparr>w_ctx = ctx, w_script = script, w_output = []\<rparr>))"

section \<open>Reader\<close>

text \<open>
  The input callback is a script too: what it does on its next calls, either a transport
  failure (a negative return) or the bytes it delivers, of which at most
  \<open>ZETES_TEMP_BUFFER_SIZE\<close> fit; delivering none is the return value 0. When the script
  is used up the callback returns 0. \<open>r_buffer\<close> is the window of bytes of \<open>temp\<close> from
  \<open>buffer_i\<close> up to \<open>buffer_e\<close>. Comparisons of a \<open>char\<close> with character constants
  come out the same for a signed and for an unsigned \<open>char\<close> and are written on the
  unsigned byte.
\<close>

datatype token_type_t =
    TOKEN_TYPE_UNDEFINED
  | TOKEN_TYPE_END_OF_INPUT
  | TOKEN_TYPE_KEY_VAL_SEPARATOR
  | TOKEN_TYPE_COMMA
  | TOKEN_TYPE_OBJECT_OPEN
  | TOKEN_TYPE_OBJECT_CLOSE
  | TOKEN_TYPE_ARRAY_OPEN
  | TOKEN_TYPE_ARRAY_CLOSE
  | TOKEN_TYPE_LITERAL

datatype read_result_t = Read_Failed | Read_Bytes "byte list"

record rstate_t =
  r_ctx :: zetes_t
  r_source :: "read_result_t list"
  r_buffer :: "byte list"
  prev_char :: byte
  token_type :: token_type_t
  token_value :: zetes_value_t

definition is_end_of_input :: "byte \<Rightarrow> bool" where
  "is_end_of_input c = (c = 0)"

definition is_whitespace :: "byte \<Rightarrow> bool" where
  "is_whitespace c = (c = 0x20 \<or> c = 0x0A \<or> c = 0x0D \<or> c = 0x09)"

definition is_control :: "byte \<Rightarrow> bool" where
  "is_control c = (c < 0x20)"

definition is_key_val_separator :: "byte \<Rightarrow> bool" where
  "is_key_val_separator c = (c = 0x3A)"

definition is_comma :: "byte \<Rightarrow> bool" where
  "is_comma c = (c = 0x2C)"

definition is_object_open :: "byte \<Rightarrow> bool" where
  "is_object_open c = (c = 0x7B)"

definition is_object_close :: "byte \<Rightarrow> bool" where
  "is_object_close c = (c = 0x7D)"

definition is_array_open :: "byte \<Rightarrow> bool" where
  "is_array_open c = (c = 0x5B)"

definition is_array_close :: "byte \<Rightarrow> bool" where
  "is_array_close c = (c = 0x5D)"

definition is_quote :: "byte \<Rightarrow> bool" where
  "is_quote c = (c = 0x22)"

definition is_escape :: "byte \<Rightarrow> bool" where
  "is_escape c = (c = 0x5C)"

definition is_digit :: "byte \<Rightarrow> bool" where
  "is_digit c = (c \<ge> 0x30 \<and> c \<le> 0x39)"

definition is_zero :: "byte \<Rightarrow> bool" where
  "is_zero c = (c = 0x30)"

definition is_digit_1_to_9 :: "byte \<Rightarrow> bool" where
  "is_digit_1_to_9 c = (c \<ge> 0x31 \<and> c \<le> 0x39)"

definition is_lower_hex :: "byte \<Rightarrow> bool" where
  "is_lower_hex c = (c \<ge> 0x61 \<and> c \<le> 0x66)"

definition is_upper_hex :: "byte \<Rightarrow> bool" where
  "is_upper_hex c = (c \<ge> 0x41 \<and> c \<le> 0x46)"

definition is_minus :: "byte \<Rightarrow> bool" where
  "is_minus c = (c = 0x2D)"

definition is_plus :: "byte \<Rightarrow> bool" where
  "is_plus c = (c = 0x2B)"

definition is_exponent_delimiter :: "byte \<Rightarrow> bool" where
  "is_exponent_delimiter c = (c = 0x65 \<or> c = 0x45)"

definition is_decimal_point :: "byte \<Rightarrow> bool" where
  "is_decimal_point c = (c = 0x2E)"

definition r_set_error :: "rstate_t \<Rightarrow> zetes_result_t \<Rightarrow> rstate_t" where
  "r_set_error st r = st\<lparr>r_ctx := set_error (r_ctx st) r\<rparr>"

definition next_char :: "rstate_t \<Rightarrow> byte \<times> rstate_t" where
  "next_char st =
     (if prev_char st \<noteq> 0 then (prev_char st, st\<lparr>prev_char := 0\<rparr>)
      else (case r_buffer st of
              c # cs \<Rightarrow> (c, st\<lparr>r_buffer := cs\<rparr>)
            | [] \<Rightarrow>
                (case r_source st of
                   [] \<Rightarrow> (0, st)
                 | Read_Failed # src \<Rightarrow>
                     (0, r_set_error (st\<lparr>r_source := src\<rparr>) ZETES_RESULT_READ_ERROR)
                 | Read_Bytes bs # src \<Rightarrow>
                     (let chunk = take ZETES_TEMP_BUFFER_SIZE bs;
                          st1 = st\<lparr>r_source := src, r_ctx := store_temp (r_ctx st) chunk\<rparr>
                      in case chunk of
                           [] \<Rightarrow> (0, st1)
                         | c # cs \<Rightarrow> (c, st1\<lparr>r_buffer := cs\<rparr>)))))"

definition putback_char :: "rstate_t \<Rightarrow> byte \<Rightarrow> rstate_t" where
  "putback_char st c = st\<lparr>prev_char := c\<rparr>"

definition append_string :: "rstate_t \<Rightarrow> byte \<Rightarrow> rstate_t" where
  "append_string st c =
     (let ctx = r_ctx st;
          buffer_i = buffer_ptr ctx;
          buffer_e = buffer_end ctx
      in if buffer_i \<ge> buffer_e then r_set_error st ZETES_RESULT_OUT_OF_MEMORY
         else st\<lparr>r_ctx := ctx\<lparr>chars := (chars ctx)(buffer_i := c), buffer_ptr := buffer_i + 1\<rparr>\<rparr>)"

text \<open>
  The loop \<open>for (n = 0; n < 4; n++)\<close> over the hex digits of a \<open>\\u\<close> escape. On a
  character that is no hex digit the status is assigned, not latched.
\<close>

fun lex_hex :: "nat \<Rightarrow> rstate_t \<Rightarrow> 16 word \<Rightarrow> 16 word option \<times> rstate_t" where
  "lex_hex 0 st code_point = (Some code_point, st)"
| "lex_hex (Suc k) st code_point =
     (let (c, st1) = next_char st
      in if is_digit c then lex_hex k st1 (push_bit 4 code_point OR ucast (c - 0x30))
         else if is_lower_hex c then lex_hex k st1 (push_bit 4 code_point OR ucast (c - 0x61 + 10))
         else if is_upper_hex c then lex_hex k st1 (push_bit 4 code_point OR ucast (c - 0x41 + 10))
         else (None, st1\<lparr>r_ctx := (r_ctx st1)\<lparr>result := ZETES_RESULT_INVALID_STRING\<rparr>\<rparr>))"

text \<open>The loop \<open>for (len = n - 1; len > 0; --len)\<close> storing the continuation bytes.\<close>

fun encode_tail :: "(nat \<Rightarrow> byte) \<Rightarrow> nat \<Rightarrow> nat \<Rightarrow> 16 word \<Rightarrow> (nat \<Rightarrow> byte) \<times> 16 word" where
  "encode_tail m buffer_i 0 code_point = (m, code_point)"
| "encode_tail m buffer_i (Suc k) code_point =
     encode_tail (m(buffer_i + Suc k := ucast (code_point AND 0x3F) OR 0x80)) buffer_i k
       (drop_bit 6 code_point)"

text \<open>
  The branch \<open>is_escape(c)\<close> of \<open>lex_string\<close>. The boolean says whether the loop goes on
  (\<open>break\<close> out of the \<open>switch\<close>) or the function returns.
\<close>

definition lex_escape :: "rstate_t \<Rightarrow> bool \<times> rstate_t" where
  "lex_escape st =
     (let buffer_i = buffer_ptr (r_ctx st);
          buffer_e = buffer_end (r_ctx st);
          (c, st1) = next_char st
      in if c = 0x22 then (True, append_string st1 0x22)
         else if c = 0x5C then (True, append_string st1 0x5C)
         else if c = 0x2F then (True, append_string st1 0x2F)
         else if c = 0x62 then (True, append_string st1 0x08)
         else if c = 0x66 then (True, append_string st1 0x0C)
         else if c = 0x6E then (True, append_string st1 0x0A)
         else if c = 0x72 then (True, append_string st1 0x0D)
         else if c = 0x74 then (True, append_string st1 0x09)
         else if c = 0x75 then
           (case lex_hex 4 st1 0 of
              (None, st2) \<Rightarrow> (False, st2)
            | (Some code_point, st2) \<Rightarrow>
                (let (bits, n) =
                       (if unat code_point < 0x80 then (0x00 :: byte, 1 :: nat)
                        else if unat code_point < 0x800 then (0xC0, 2)
                        else if unat code_point < 0x10000 then (0xE0, 3)
                        else if unat code_point < 0x200000 then (0xF0, 4)
                        else if unat code_point < 0x4000000 then (0xF8, 5)
                        else (0xFC, 6))
                 in if buffer_i + n \<ge> buffer_e
                    then (False, r_set_error st2 ZETES_RESULT_OUT_OF_MEMORY)
                    else
                      (let (m, cp) = encode_tail (chars (r_ctx st2)) buffer_i (n - 1) code_point;
                           m' = m(buffer_i := ucast cp OR bits)
                       in (True, st2\<lparr>r_ctx := (r_ctx st2)
                                     \<lparr>chars := m', buffer_ptr := buffer_ptr (r_ctx st2) + n\<rparr>\<rparr>))))
         else (False, r_set_error st1 ZETES_RESULT_INVALID_STRING))"

text \<open>The bytes the reader has still to see: a measure for the loops of the lexer.\<close>

fun source_size :: "read_result_t list \<Rightarrow> nat" where
  "source_size [] = 0"
| "source_size (Read_Failed # src) = 1 + source_size src"
| "source_size (Read_Bytes bs # src) = 1 + length (take ZETES_TEMP_BUFFER_SIZE bs) + source_size src"

definition input_size :: "rstate_t \<Rightarrow> nat" where
  "input_size st =
     (if prev_char st \<noteq> 0 then 1 else 0) + length (r_buffer st) + source_size (r_source st)"

lemma input_size_r_ctx [simp]: "input_size (st\<lparr>r_ctx := x\<rparr>) = input_size st"
  by (simp add: input_size_def)

lemma take_Cons_length: "take n xs = c # cs \<Longrightarrow> length (take n xs) = Suc (length cs)"
  by simp

lemma next_char_size_le: "next_char st = (c, st1) \<Longrightarrow> input_size st1 \<le> input_size st"
  by (auto simp: next_char_def input_size_def r_set_error_def Let_def
           simp del: length_take
           split: if_splits list.splits read_result_t.splits dest!: take_Cons_length)

lemma next_char_size_less:
  "next_char st = (c, st1) \<Longrightarrow> c \<noteq> 0 \<Longrightarrow> input_size st1 < input_size st"
  by (auto simp: next_char_def input_size_def r_set_error_def Let_def
           simp del: length_take
           split: if_splits list.splits read_result_t.splits dest!: take_Cons_length)

lemma append_string_size [simp]: "input_size (append_string st c) = input_size st"
  by (simp add: append_string_def r_set_error_def Let_def)

lemma r_set_error_size [simp]: "input_size (r_set_error st r) = input_size st"
  by (simp add: r_set_error_def)

lemma lex_hex_size_le: "lex_hex k st cp = (r, st1) \<Longrightarrow> input_size st1 \<le> input_size st"
proof (induction k arbitrary: st cp)
  case 0
  then show ?case by simp
next
  case (Suc k)
  obtain c st' where nc: "next_char st = (c, st')" by (cases "next_char st")
  have le: "input_size st' \<le> input_size st" using next_char_size_le[OF nc] .
  have "input_size st1 \<le> input_size st'"
    using Suc.prems nc Suc.IH[of st' _]
    by (auto simp: Let_def split: if_splits)
  then show ?case using le by simp
qed

lemma lex_escape_size_le: "lex_escape st = (r, st1) \<Longrightarrow> input_size st1 \<le> input_size st"
proof -
  assume a: "lex_escape st = (r, st1)"
  obtain c st' where nc: "next_char st = (c, st')" by (cases "next_char st")
  have le: "input_size st' \<le> input_size st" using next_char_size_le[OF nc] .
  obtain h st2 where lh: "lex_hex 4 st' 0 = (h, st2)" by (cases "lex_hex 4 st' 0")
  have le2: "input_size st2 \<le> input_size st'" using lex_hex_size_le[OF lh] .
  have "input_size st1 = input_size st' \<or> input_size st1 = input_size st2"
    using a nc lh
    by (auto simp: lex_escape_def Let_def split: if_splits option.splits prod.splits)
  then show ?thesis using le le2 by auto
qed

function lex_string_loop :: "nat \<Rightarrow> rstate_t \<Rightarrow> rstate_t" where
  "lex_string_loop str st =
     (let (c, st1) = next_char st
      in if is_end_of_input c then r_set_error st1 ZETES_RESULT_UNEXPECTED_END_OF_INPUT
         else if is_control c then r_set_error st1 ZETES_RESULT_INVALID_CHARACTER
         else if is_quote c then
           (append_string st1 0)
             \<lparr>token_type := TOKEN_TYPE_LITERAL,
              token_value := \<lparr>type = ZETES_TYPE_STRING, variant = V_ptr str\<rparr>\<rparr>
         else if is_escape c then
           (let (continue, st2) = lex_escape st1
            in if continue then lex_string_loop str st2 else st2)
         else lex_string_loop str (append_string st1 c))"
  by pat_completeness auto
termination
proof (relation "measure (\<lambda>(str, st). input_size st)", goal_cases)
  case 1
  show ?case by simp
next
  case (2 str st p c st1 q continue st2)
  then have "input_size st1 < input_size st"
    using next_char_size_less[of st c st1] by (simp add: is_end_of_input_def)
  moreover have "input_size st2 \<le> input_size st1"
    using 2 lex_escape_size_le[of st1 continue st2] by simp
  ultimately show ?case by simp
next
  case (3 str st p c st1)
  then have "input_size st1 < input_size st"
    using next_char_size_less[of st c st1] by (simp add: is_end_of_input_def)
  then show ?case by simp
qed

declare lex_string_loop.simps [simp del]

definition lex_string :: "rstate_t \<Rightarrow> rstate_t" where
  "lex_string st = lex_string_loop (buffer_ptr (r_ctx st)) st"

text \<open>
  The three \<open>do ... while (is_digit(c))\<close> loops of \<open>lex_number\<close>: the integer part, the
  fraction (which counts \<open>exp\<close> down) and the exponent.
\<close>

lemma is_digit_nonzero: "is_digit c \<Longrightarrow> c \<noteq> 0"
  by (auto simp: is_digit_def)

function lex_int_digits :: "rstate_t \<Rightarrow> byte \<Rightarrow> zetes_number_t \<Rightarrow> byte \<times> rstate_t \<times> zetes_number_t" where
  "lex_int_digits st c v =
     (let v1 = v * 10 + real (unat c) - 48;
          (c1, st1) = next_char st
      in if is_digit c1 then lex_int_digits st1 c1 v1 else (c1, st1, v1))"
  by pat_completeness auto
termination
proof (relation "measure (\<lambda>(st, c, v). input_size st)", goal_cases)
  case 1
  show ?case by simp
next
  case (2 st c v v1 p c1 st1)
  then show ?case
    using next_char_size_less[of st c1 st1] is_digit_nonzero[of c1] by auto
qed

declare lex_int_digits.simps [simp del]

function lex_frac_digits ::
    "rstate_t \<Rightarrow> byte \<Rightarrow> zetes_number_t \<Rightarrow> int \<Rightarrow> byte \<times> rstate_t \<times> zetes_number_t \<times> int" where
  "lex_frac_digits st c v ex =
     (let v1 = v * 10 + real (unat c) - 48;
          ex1 = ex - 1;
          (c1, st1) = next_char st
      in if is_digit c1 then lex_frac_digits st1 c1 v1 ex1 else (c1, st1, v1, ex1))"
  by pat_completeness auto
termination
proof (relation "measure (\<lambda>(st, c, v, ex). input_size st)", goal_cases)
  case 1
  show ?case by simp
next
  case (2 st c v ex v1 ex1 p c1 st1)
  then show ?case
    using next_char_size_less[of st c1 st1] is_digit_nonzero[of c1] by auto
qed

declare lex_frac_digits.simps [simp del]

function lex_exp_digits :: "rstate_t \<Rightarrow> byte \<Rightarrow> int \<Rightarrow> byte \<times> rstate_t \<times> int" where
  "lex_exp_digits st c exp_part =
     (let exp_part1 = exp_part * 10 + int (unat c) - 48;
          (c1, st1) = next_char st
      in if is_digit c1 then lex_exp_digits st1 c1 exp_part1 else (c1, st1, exp_part1))"
  by pat_completeness auto
termination
proof (relation "measure (\<lambda>(st, c, e). input_size st)", goal_cases)
  case 1
  show ?case by simp
next
  case (2 st c e e1 p c1 st1)
  then show ?case
    using next_char_size_less[of st c1 st1] is_digit_nonzero[of c1] by auto
qed

declare lex_exp_digits.simps [simp del]

text \<open>
  The two scaling loops \<open>while (exp) { if (exp & 1) ...; exp >>= 1; power *= power; }\<close>;
  \<open>exp\<close> is not negative when they run.
\<close>

function scale_down :: "nat \<Rightarrow> zetes_number_t \<Rightarrow> zetes_number_t \<Rightarrow> zetes_number_t" where
  "scale_down ex v pw =
     (if ex \<noteq> 0
      then scale_down (ex div 2) (if ex mod 2 = 1 then v / pw else v) (pw * pw)
      else v)"
  by pat_completeness auto
termination
  by (relation "measure (\<lambda>(ex, v, pw). ex)") auto

declare scale_down.simps [simp del]

function scale_up :: "nat \<Rightarrow> zetes_number_t \<Rightarrow> zetes_number_t \<Rightarrow> zetes_number_t" where
  "scale_up ex v pw =
     (if ex \<noteq> 0
      then scale_up (ex div 2) (if ex mod 2 = 1 then v * pw else v) (pw * pw)
      else v)"
  by pat_completeness auto
termination
  by (relation "measure (\<lambda>(ex, v, pw). ex)") auto

declare scale_up.simps [simp del]

definition lex_number :: "rstate_t \<Rightarrow> rstate_t" where
  "lex_number st =
     (let (c0, st0) = next_char st;
          (is_negative, c1, st1) =
             (if is_minus c0 then (let (c, s) = next_char st0 in (True, c, s))
              else (False, c0, st0))
      in if \<not> is_digit_1_to_9 c1 \<and> \<not> is_zero c1
         then r_set_error st1 ZETES_RESULT_INVALID_NUMBER
         else
           (let (c2, st2, v2) =
                  (if is_digit_1_to_9 c1 then lex_int_digits st1 c1 0
                   else (let (c, s) = next_char st1 in (c, s, 0)))
            in if is_decimal_point c2 \<and> \<not> is_digit (fst (next_char st2))
               then r_set_error (snd (next_char st2)) ZETES_RESULT_INVALID_NUMBER
               else
                 (let (c3, st3, v3, exp3) =
                        (if is_decimal_point c2
                         then (let (c, s) = next_char st2 in lex_frac_digits s c v2 0)
                         else (c2, st2, v2, 0));
                      (exp_negative, c4, st4) =
                        (if is_exponent_delimiter c3
                         then (let (c, s) = next_char st3
                               in if is_plus c then (let (c', s') = next_char s in (False, c', s'))
                                  else if is_minus c
                                  then (let (c', s') = next_char s in (True, c', s'))
                                  else (False, c, s))
                         else (False, c3, st3))
                  in if is_exponent_delimiter c3 \<and> \<not> is_digit c4
                     then r_set_error st4 ZETES_RESULT_INVALID_NUMBER
                     else
                       (let (c5, st5, exp5) =
                              (if is_exponent_delimiter c3
                               then (let (c, s, exp_part) = lex_exp_digits st4 c4 0
                                     in (c, s, if exp_negative then exp3 - exp_part
                                               else exp3 + exp_part))
                               else (c4, st4, exp3));
                            st6 = putback_char st5 c5;
                            v6 = (if exp5 < 0 then scale_down (nat (- exp5)) v3 10
                                  else scale_up (nat exp5) v3 10);
                            v7 = (if is_negative then - v6 else v6)
                        in st6\<lparr>token_type := TOKEN_TYPE_LITERAL,
                                token_value := \<lparr>type = ZETES_TYPE_NUMBER,
                                                variant = V_number v7\<rparr>\<rparr>))))"

text \<open>
  The chain \<open>next_char(state) != k1 || next_char(state) != k2 || ...\<close> of a keyword: no
  character is read after the first that differs.
\<close>

fun match_keyword :: "rstate_t \<Rightarrow> byte list \<Rightarrow> bool \<times> rstate_t" where
  "match_keyword st [] = (True, st)"
| "match_keyword st (k # ks) =
     (let (c, st1) = next_char st
      in if c \<noteq> k then (False, st1) else match_keyword st1 ks)"

text \<open>The branches of \<open>next_token\<close> on a character that is not whitespace.\<close>

definition next_token_char :: "rstate_t \<Rightarrow> byte \<Rightarrow> rstate_t" where
  "next_token_char st c =
     (if is_end_of_input c then st\<lparr>token_type := TOKEN_TYPE_END_OF_INPUT\<rparr>
      else if is_key_val_separator c then st\<lparr>token_type := TOKEN_TYPE_KEY_VAL_SEPARATOR\<rparr>
      else if is_comma c then st\<lparr>token_type := TOKEN_TYPE_COMMA\<rparr>
      else if is_object_open c then st\<lparr>token_type := TOKEN_TYPE_OBJECT_OPEN\<rparr>
      else if is_object_close c then st\<lparr>token_type := TOKEN_TYPE_OBJECT_CLOSE\<rparr>
      else if is_array_open c then st\<lparr>token_type := TOKEN_TYPE_ARRAY_OPEN\<rparr>
      else if is_array_close c then st\<lparr>token_type := TOKEN_TYPE_ARRAY_CLOSE\<rparr>
      else if is_quote c then lex_string st
      else if is_digit c \<or> is_minus c then lex_number (putback_char st c)
      else if c = hd SYMBOL_NULL then
        (let (m, st1) = match_keyword st (tl SYMBOL_NULL)
         in if \<not> m then r_set_error st1 ZETES_RESULT_UNKNOWN_KEYWORD
            else st1\<lparr>token_type := TOKEN_TYPE_LITERAL,
                     token_value := (token_value st1)\<lparr>type := ZETES_TYPE_NULL\<rparr>\<rparr>)
      else if c = hd SYMBOL_FALSE then
        (let (m, st1) = match_keyword st (tl SYMBOL_FALSE)
         in if \<not> m then r_set_error st1 ZETES_RESULT_UNKNOWN_KEYWORD
            else st1\<lparr>token_type := TOKEN_TYPE_LITERAL,
                     token_value := \<lparr>type = ZETES_TYPE_BOOL, variant = V_bool False\<rparr>\<rparr>)
      else if c = hd SYMBOL_TRUE then
        (let (m, st1) = match_keyword st (tl SYMBOL_TRUE)
         in if \<not> m then r_set_error st1 ZETES_RESULT_UNKNOWN_KEYWORD
            else st1\<lparr>token_type := TOKEN_TYPE_LITERAL,
                     token_value := \<lparr>type = ZETES_TYPE_BOOL, variant = V_bool True\<rparr>\<rparr>)
      else r_set_error st ZETES_RESULT_INVALID_CHARACTER)"

lemma is_whitespace_nonzero: "is_whitespace c \<Longrightarrow> c \<noteq> 0"
  by (auto simp: is_whitespace_def)

function next_token_loop :: "rstate_t \<Rightarrow> rstate_t" where
  "next_token_loop st =
     (let (c, st1) = next_char st
      in if is_whitespace c then next_token_loop st1 else next_token_char st1 c)"
  by pat_completeness auto
termination
proof (relation "measure input_size", goal_cases)
  case 1
  show ?case by simp
next
  case (2 st p c st1)
  then show ?case
    using next_char_size_less[of st c st1] is_whitespace_nonzero[of c] by auto
qed

declare next_token_loop.simps [simp del]

definition next_token :: "rstate_t \<Rightarrow> rstate_t" where
  "next_token st =
     next_token_loop (st\<lparr>token_type := TOKEN_TYPE_UNDEFINED,
                         token_value := (token_value st)\<lparr>type := ZETES_TYPE_NONE\<rparr>\<rparr>)"

definition match_token :: "rstate_t \<Rightarrow> token_type_t \<Rightarrow> bool \<times> rstate_t" where
  "match_token st t = (if token_type st = t then (True, next_token st) else (False, st))"

definition expect_token :: "rstate_t \<Rightarrow> token_type_t \<Rightarrow> bool \<times> rstate_t" where
  "expect_token st t =
     (if token_type st \<noteq> t then (False, r_set_error st ZETES_RESULT_SYNTAX_ERROR)
      else (True, st))"

text \<open>
  The recursive descent. The first argument bounds the number of nested calls and of loop
  rounds: the result is \<open>None\<close> when it is used up. \<open>parse_array_loop\<close> and
  \<open>parse_object_loop\<close> are the loops \<open>while (ok(ctx))\<close>.
\<close>

function (sequential)
    parse_value :: "nat \<Rightarrow> rstate_t \<Rightarrow> rstate_t option"
and parse_array :: "nat \<Rightarrow> rstate_t \<Rightarrow> rstate_t option"
and parse_array_loop :: "nat \<Rightarrow> rstate_t \<Rightarrow> rstate_t option"
and parse_object :: "nat \<Rightarrow> rstate_t \<Rightarrow> rstate_t option"
and parse_object_loop :: "nat \<Rightarrow> rstate_t \<Rightarrow> rstate_t option"
where
  "parse_value 0 st = None"
| "parse_value (Suc n) st =
     (if \<not> ok (r_ctx st) then Some st
      else
        (let (m1, st1) = match_token st TOKEN_TYPE_ARRAY_OPEN
         in if m1 then parse_array n st1
            else
              (let (m2, st2) = match_token st1 TOKEN_TYPE_OBJECT_OPEN
               in if m2 then parse_object n st2
                  else
                    (let (e, st3) = expect_token st2 TOKEN_TYPE_LITERAL
                     in if e then
                          (let (slot, ctx1) = stack_emplace (r_ctx st3)
                           in if slot \<noteq> 0
                              then Some (next_token
                                     (st3\<lparr>r_ctx := set_slot ctx1 slot (token_value st3)\<rparr>))
                              else Some (st3\<lparr>r_ctx := ctx1\<rparr>))
                        else Some st3))))"
| "parse_array n st =
     (let st1 = st\<lparr>r_ctx := zetes_push_new_array (r_ctx st)\<rparr>;
          (m, st2) = match_token st1 TOKEN_TYPE_ARRAY_CLOSE
      in if \<not> m then parse_array_loop n st2 else Some st2)"
| "parse_array_loop 0 st = None"
| "parse_array_loop (Suc n) st =
     (if \<not> ok (r_ctx st) then Some st
      else
        (case parse_value n st of
           None \<Rightarrow> None
         | Some st1 \<Rightarrow>
             (let st2 = st1\<lparr>r_ctx := zetes_array_append (r_ctx st1)\<rparr>;
                  (m1, st3) = match_token st2 TOKEN_TYPE_COMMA
              in if m1 then parse_array_loop n st3
                 else
                   (let (m2, st4) = match_token st3 TOKEN_TYPE_ARRAY_CLOSE
                    in if \<not> m2 then Some (r_set_error st4 ZETES_RESULT_SYNTAX_ERROR)
                       else Some st4))))"
| "parse_object n st =
     (let st1 = st\<lparr>r_ctx := zetes_push_new_object (r_ctx st)\<rparr>;
          (m, st2) = match_token st1 TOKEN_TYPE_OBJECT_CLOSE
      in if \<not> m then parse_object_loop n st2 else Some st2)"
| "parse_object_loop 0 st = None"
| "parse_object_loop (Suc n) st =
     (if \<not> ok (r_ctx st) then Some st
      else
        (let (e, st1) = expect_token st TOKEN_TYPE_LITERAL
         in if \<not> e \<or> type (token_value st1) \<noteq> ZETES_TYPE_STRING
            then Some (r_set_error st1 ZETES_RESULT_SYNTAX_ERROR)
            else
              (let key = v_ptr (variant (token_value st1));
                   st2 = next_token st1;
                   (m0, st3) = match_token st2 TOKEN_TYPE_KEY_VAL_SEPARATOR
               in if \<not> m0 then Some st3
                  else
                    (case parse_value n st3 of
                       None \<Rightarrow> None
                     | Some st4 \<Rightarrow>
                         (let st5 = st4\<lparr>r_ctx := object_set_with_interned_key (r_ctx st4) key\<rparr>;
                              (m1, st6) = match_token st5 TOKEN_TYPE_COMMA
                          in if m1 then parse_object_loop n st6
                             else
                               (let (m2, st7) = match_token st6 TOKEN_TYPE_OBJECT_CLOSE
                                in if \<not> m2
                                   then Some (r_set_error st7 ZETES_RESULT_SYNTAX_ERROR)
                                   else Some st7))))))"
  by pat_completeness auto
termination
  by (relation "measure (\<lambda>x. case x of
        Inl (Inl (n, _)) \<Rightarrow> 3 * n
      | Inl (Inr (n, _)) \<Rightarrow> 3 * n + 2
      | Inr (Inl (n, _)) \<Rightarrow> 3 * n + 1
      | Inr (Inr (Inl (n, _))) \<Rightarrow> 3 * n + 2
      | Inr (Inr (Inr (n, _))) \<Rightarrow> 3 * n + 1)") auto

text \<open>
  \<open>zetes_read\<close>: the callback is given by its script. The local \<open>rstate\<close> starts with
  an empty window; its \<open>token_value\<close> is not initialised in the source and its tag is
  assigned by \<open>next_token\<close> before it is read.
\<close>

definition zetes_read ::
    "nat \<Rightarrow> zetes_t \<Rightarrow> read_result_t list \<Rightarrow> (zetes_result_t \<times> rstate_t) option" where
  "zetes_read fuel ctx source =
     (let rstate = \<lparr>r_ctx = ctx, r_source = source, r_buffer = [], prev_char = 0,
                     token_type = TOKEN_TYPE_UNDEFINED,
                     token_value = \<lparr>type = ZETES_TYPE_NONE, variant = V_ptr 0\<rparr>\<rparr>
      in if ok ctx then
           (case parse_value fuel (next_token rstate) of
              None \<Rightarrow> None
            | Some st1 \<Rightarrow>
                (let st2 = (if ok (r_ctx st1)
                            then snd (expect_token st1 TOKEN_TYPE_END_OF_INPUT)
                            else st1)
                 in Some (result (r_ctx st2), st2)))
         else Some (result ctx, rstate))"

section \<open>Operations as data, and contexts to run them on\<close>

text \<open>
  The operations on a live context (all of the interface but \<open>zetes_init\<close>,
  \<open>zetes_cleanup\<close> and \<open>zetes_reset\<close>), with what each returns.
\<close>

datatype zetes_op =
    Op_result
  | Op_push_null
  | Op_push_bool bool
  | Op_push_number zetes_number_t
  | Op_push_string "byte list"
  | Op_push_new_array
  | Op_push_new_object
  | Op_type
  | Op_pop
  | Op_pop_null
  | Op_pop_bool
  | Op_pop_number
  | Op_pop_string
  | Op_array_size
  | Op_array_index nat
  | Op_array_append
  | Op_object_size
  | Op_object_index nat
  | Op_object_has "byte list"
  | Op_object_get "byte list"
  | Op_object_set "byte list"
  | Op_write nat "zetes_number_t \<Rightarrow> byte list" "int list"
  | Op_read nat "read_result_t list"

datatype zetes_ret =
    Ret_void
  | Ret_result zetes_result_t
  | Ret_type zetes_type_t
  | Ret_bool bool
  | Ret_number zetes_number_t
  | Ret_ptr nat
  | Ret_size nat

fun run_op :: "zetes_op \<Rightarrow> zetes_t \<Rightarrow> (zetes_ret \<times> zetes_t) option" where
  "run_op Op_result ctx = Some (Ret_result (zetes_result ctx), ctx)"
| "run_op Op_push_null ctx = Some (Ret_void, zetes_push_null ctx)"
| "run_op (Op_push_bool v) ctx = Some (Ret_void, zetes_push_bool ctx v)"
| "run_op (Op_push_number v) ctx = Some (Ret_void, zetes_push_number ctx v)"
| "run_op (Op_push_string v) ctx = Some (Ret_void, zetes_push_string ctx v)"
| "run_op Op_push_new_array ctx = Some (Ret_void, zetes_push_new_array ctx)"
| "run_op Op_push_new_object ctx = Some (Ret_void, zetes_push_new_object ctx)"
| "run_op Op_type ctx = (let (t, c) = zetes_type ctx in Some (Ret_type t, c))"
| "run_op Op_pop ctx = Some (Ret_void, zetes_pop ctx)"
| "run_op Op_pop_null ctx = Some (Ret_void, zetes_pop_null ctx)"
| "run_op Op_pop_bool ctx = (let (b, c) = zetes_pop_bool ctx in Some (Ret_bool b, c))"
| "run_op Op_pop_number ctx = (let (x, c) = zetes_pop_number ctx in Some (Ret_number x, c))"
| "run_op Op_pop_string ctx = (let (p, c) = zetes_pop_string ctx in Some (Ret_ptr p, c))"
| "run_op Op_array_size ctx = (let (n, c) = zetes_array_size ctx in Some (Ret_size n, c))"
| "run_op (Op_array_index i) ctx = Some (Ret_void, zetes_array_index ctx i)"
| "run_op Op_array_append ctx = Some (Ret_void, zetes_array_append ctx)"
| "run_op Op_object_size ctx = (let (n, c) = zetes_object_size ctx in Some (Ret_size n, c))"
| "run_op (Op_object_index i) ctx = Some (Ret_void, zetes_object_index ctx i)"
| "run_op (Op_object_has k) ctx = (let (b, c) = zetes_object_has ctx k in Some (Ret_bool b, c))"
| "run_op (Op_object_get k) ctx = Some (Ret_void, zetes_object_get ctx k)"
| "run_op (Op_object_set k) ctx = Some (Ret_void, zetes_object_set ctx k)"
| "run_op (Op_write fuel fmt script) ctx =
     (case zetes_write fuel fmt ctx script of
        None \<Rightarrow> None
      | Some (r, st) \<Rightarrow> Some (Ret_result r, w_ctx st))"
| "run_op (Op_read fuel source) ctx =
     (case zetes_read fuel ctx source of
        None \<Rightarrow> None
      | Some (r, st) \<Rightarrow> Some (Ret_result r, r_ctx st))"

text \<open>What an operation returns when it does nothing.\<close>

fun default_ret :: "zetes_op \<Rightarrow> zetes_t \<Rightarrow> zetes_ret" where
  "default_ret Op_result ctx = Ret_result (result ctx)"
| "default_ret Op_type ctx = Ret_type ZETES_TYPE_NONE"
| "default_ret Op_pop_bool ctx = Ret_bool False"
| "default_ret Op_pop_number ctx = Ret_number 0"
| "default_ret Op_pop_string ctx = Ret_ptr 0"
| "default_ret Op_array_size ctx = Ret_size 0"
| "default_ret Op_object_size ctx = Ret_size 0"
| "default_ret (Op_object_has k) ctx = Ret_bool False"
| "default_ret (Op_write fuel fmt script) ctx = Ret_result (result ctx)"
| "default_ret (Op_read fuel source) ctx = Ret_result (result ctx)"
| "default_ret _ ctx = Ret_void"

text \<open>
  A context structure whose memory is all zero, and the context that \<open>zetes_init\<close> makes of
  it over a buffer at address 4096.
\<close>

definition zeroed :: zetes_t where
  "zeroed =
     \<lparr>result = ZETES_RESULT_UNINITIALIZED,
      buffer_begin = 0, buffer_end = 0, buffer_ptr = 0,
      stack_begin = 0, stack_end = 0, stack_ptr = 0,
      temp = replicate 16 0,
      slots = (\<lambda>_. \<lparr>type = ZETES_TYPE_NONE, variant = V_ptr 0\<rparr>),
      chars = (\<lambda>_. 0),
      arrays = (\<lambda>_. []),
      objects = (\<lambda>_. [])\<rparr>"

definition fresh :: "nat \<Rightarrow> nat \<Rightarrow> zetes_t" where
  "fresh stack_depth buffer_size = snd (zetes_init zeroed stack_depth 4096 buffer_size)"

text \<open>The array of the numbers 10 and 20, built on a fresh context and left on top.\<close>

definition two_numbers :: zetes_t where
  "two_numbers =
     zetes_array_append (zetes_push_number
       (zetes_array_append (zetes_push_number (zetes_push_new_array (fresh 4 1024)) 10)) 20)"

section \<open>The rendering of strings, as described\<close>

text \<open>
  The rendering of one ASCII byte of a string as the text describes it, to be compared
  with what \<open>write_string\<close> sends: a two-character escape for the eight bytes quote,
  backslash, slash, backspace, form feed, newline, carriage return and tab; an escape
  \<open>\\u00XX\<close> in upper-case hex for the other control bytes, for DEL and for the single
  quote; the byte itself otherwise.
\<close>

definition hex_upper :: "nat \<Rightarrow> byte" where
  "hex_upper n = (if n < 10 then 0x30 + of_nat n else 0x41 + of_nat (n - 10))"

definition short_escape :: "byte \<Rightarrow> byte option" where
  "short_escape c =
     (if c = 0x22 then Some 0x22
      else if c = 0x5C then Some 0x5C
      else if c = 0x2F then Some 0x2F
      else if c = 0x08 then Some 0x62
      else if c = 0x0C then Some 0x66
      else if c = 0x0A then Some 0x6E
      else if c = 0x0D then Some 0x72
      else if c = 0x09 then Some 0x74
      else None)"

definition render_ascii :: "byte \<Rightarrow> byte list" where
  "render_ascii c =
     (case short_escape c of
        Some e \<Rightarrow> [0x5C, e]
      | None \<Rightarrow>
          if c < 0x20 \<or> c = 0x7F \<or> c = 0x27
          then [0x5C, 0x75, 0x30, 0x30, hex_upper (unat c div 16), hex_upper (unat c mod 16)]
          else [c])"


definition unit_length :: "byte \<Rightarrow> nat" where
  "unit_length c =
     (if c < 0xC0 then 1 else if c < 0xE0 then 2 else if c < 0xF0 then 3
      else if c < 0xF8 then 4 else if c < 0xFC then 5 else 6)"




definition temp_only :: "zetes_t \<Rightarrow> zetes_t \<Rightarrow> bool" where
  "temp_only ctx ctx' = (ctx' = ctx\<lparr>temp := temp ctx'\<rparr>)"






section \<open>The stream of characters the reader sees\<close>

text \<open>
  The characters that the following calls of \<open>next_char\<close> return, as far as the window
  and the script reach: a failed read and a read of no bytes return the character 0, as
  a NUL byte does. After them every call returns 0.
\<close>

fun source_delivered :: "read_result_t list \<Rightarrow> byte list" where
  "source_delivered [] = []"
| "source_delivered (Read_Failed # src) = 0 # source_delivered src"
| "source_delivered (Read_Bytes bs # src) =
     (if take ZETES_TEMP_BUFFER_SIZE bs = [] then [0] else take ZETES_TEMP_BUFFER_SIZE bs) @
     source_delivered src"

definition delivered :: "rstate_t \<Rightarrow> byte list" where
  "delivered st =
     (if prev_char st \<noteq> 0 then [prev_char st] else []) @ r_buffer st @
     source_delivered (r_source st)"

text \<open>A reader on a fresh context whose window holds the given bytes.\<close>

definition reading :: "byte list \<Rightarrow> rstate_t" where
  "reading bs =
     \<lparr>r_ctx = fresh 2 64, r_source = [], r_buffer = bs, prev_char = 0,
      token_type = TOKEN_TYPE_UNDEFINED,
      token_value = \<lparr>type = ZETES_TYPE_NONE, variant = V_ptr 0\<rparr>\<rparr>"



text \<open>
  The parts of \<open>lex_number\<close> after the integer digits, after the fraction and after the
  exponent, named so that facts about them can be stated one by one; \<open>lex_number\<close>
  is their composition.
\<close>

definition number_finish :: "rstate_t \<Rightarrow> byte \<Rightarrow> zetes_number_t \<Rightarrow> int \<Rightarrow> bool \<Rightarrow> rstate_t" where
  "number_finish st5 c5 v3 exp5 is_negative =
     (let st6 = putback_char st5 c5;
          v6 = (if exp5 < 0 then scale_down (nat (- exp5)) v3 10
                else scale_up (nat exp5) v3 10);
          v7 = (if is_negative then - v6 else v6)
      in st6\<lparr>token_type := TOKEN_TYPE_LITERAL,
              token_value := \<lparr>type = ZETES_TYPE_NUMBER, variant = V_number v7\<rparr>\<rparr>)"

definition number_exponent :: "byte \<Rightarrow> rstate_t \<Rightarrow> zetes_number_t \<Rightarrow> int \<Rightarrow> bool \<Rightarrow> rstate_t" where
  "number_exponent c3 st3 v3 exp3 is_negative =
     (let (exp_negative, c4, st4) =
            (if is_exponent_delimiter c3
             then (let (c, s) = next_char st3
                   in if is_plus c then (let (c', s') = next_char s in (False, c', s'))
                      else if is_minus c
                      then (let (c', s') = next_char s in (True, c', s'))
                      else (False, c, s))
             else (False, c3, st3))
      in if is_exponent_delimiter c3 \<and> \<not> is_digit c4
         then r_set_error st4 ZETES_RESULT_INVALID_NUMBER
         else
           (let (c5, st5, exp5) =
                  (if is_exponent_delimiter c3
                   then (let (c, s, exp_part) = lex_exp_digits st4 c4 0
                         in (c, s, if exp_negative then exp3 - exp_part
                                   else exp3 + exp_part))
                   else (c4, st4, exp3))
            in number_finish st5 c5 v3 exp5 is_negative))"




section \<open>Facts about the helpers\<close>

lemmas size_defs = ZETES_ALIGN_def sizeof_value_def sizeof_array_def sizeof_object_def
  sizeof_array_element_def sizeof_object_member_def to_size_t_def

lemmas stack_defs = ok_def set_error_def stack_count_def stack_emplace_def stack_validate_def
  type_validate_def validate_def set_slot_def stack_pop_def alloc_def arena_space_def
  align_ptr_def

lemmas life_defs = zeroed_def fresh_def zetes_init_def zetes_reset_def

lemma array_index_loop_stuck: "array_index_loop (e # es) i = e # es"
  by (induction i) (simp_all add: array_index_loop.simps)

lemma array_index_loop_Nil: "array_index_loop [] i = []"
  by (simp add: array_index_loop.simps)

lemma validate_not_ok: "\<not> ok ctx \<Longrightarrow> validate ctx n t p = (False, ctx)"
  by (simp add: validate_def stack_validate_def)

lemma stack_emplace_not_ok: "\<not> ok ctx \<Longrightarrow> stack_emplace ctx = (0, ctx)"
  by (simp add: stack_emplace_def)

lemma find_member_iff:
  "find_member ctx ms k \<noteq> [] \<longleftrightarrow> k \<in> set (map (\<lambda>m. get_string ctx (fst m)) ms)"
  by (induction ms) auto

lemma two_numbers_eval:
  "result two_numbers = ZETES_RESULT_OK"
  "stack_ptr two_numbers = 4144" "stack_begin two_numbers = 4096" "stack_end two_numbers = 4160"
  "slots two_numbers 4144 = \<lparr>type = ZETES_TYPE_ARRAY, variant = V_ptr 4160\<rparr>"
  "arrays two_numbers 4160 =
     [\<lparr>type = ZETES_TYPE_NUMBER, variant = V_number 10\<rparr>,
      \<lparr>type = ZETES_TYPE_NUMBER, variant = V_number 20\<rparr>]"
  by (simp_all add: two_numbers_def life_defs stack_defs size_defs Let_def
        zetes_push_new_array_def zetes_push_number_def zetes_array_append_def)

lemma fresh_2_64_eval:
  "result (fresh 2 64) = ZETES_RESULT_OK" "buffer_begin (fresh 2 64) = 4096"
  "buffer_end (fresh 2 64) = 4160" "buffer_ptr (fresh 2 64) = 4128"
  "stack_begin (fresh 2 64) = 4096" "stack_end (fresh 2 64) = 4128"
  "stack_ptr (fresh 2 64) = 4128"
  by (simp_all add: life_defs stack_defs size_defs Let_def)

lemma fresh_2_35_eval:
  "result (fresh 2 35) = ZETES_RESULT_OK" "buffer_begin (fresh 2 35) = 4096"
  "buffer_end (fresh 2 35) = 4131" "buffer_ptr (fresh 2 35) = 4128"
  "stack_begin (fresh 2 35) = 4096" "stack_end (fresh 2 35) = 4128"
  "stack_ptr (fresh 2 35) = 4128"
  by (simp_all add: life_defs stack_defs size_defs Let_def)

lemma fresh_2_34_eval:
  "result (fresh 2 34) = ZETES_RESULT_OK" "buffer_begin (fresh 2 34) = 4096"
  "buffer_end (fresh 2 34) = 4130" "buffer_ptr (fresh 2 34) = 4128"
  "stack_begin (fresh 2 34) = 4096" "stack_end (fresh 2 34) = 4128"
  "stack_ptr (fresh 2 34) = 4128"
  by (simp_all add: life_defs stack_defs size_defs Let_def)

lemma new_object_eval:
  "result (zetes_push_new_object (fresh 2 64)) = ZETES_RESULT_OK"
  "stack_ptr (zetes_push_new_object (fresh 2 64)) = 4112"
  "stack_end (zetes_push_new_object (fresh 2 64)) = 4128"
  "slots (zetes_push_new_object (fresh 2 64)) 4112 =
     \<lparr>type = ZETES_TYPE_OBJECT, variant = V_ptr 4128\<rparr>"
  by (simp_all add: zetes_push_new_object_def fresh_2_64_eval stack_defs size_defs Let_def)

lemma new_array_eval:
  "result (zetes_push_new_array (fresh 2 64)) = ZETES_RESULT_OK"
  "stack_ptr (zetes_push_new_array (fresh 2 64)) = 4112"
  "stack_end (zetes_push_new_array (fresh 2 64)) = 4128"
  "slots (zetes_push_new_array (fresh 2 64)) 4112 =
     \<lparr>type = ZETES_TYPE_ARRAY, variant = V_ptr 4128\<rparr>"
  by (simp_all add: zetes_push_new_array_def fresh_2_64_eval stack_defs size_defs Let_def)

lemma push_ab_eval:
  "result (zetes_push_string (fresh 2 35) [0x61, 0x62]) = ZETES_RESULT_OK"
  "buffer_end (zetes_push_string (fresh 2 35) [0x61, 0x62]) = 4131"
  "buffer_ptr (zetes_push_string (fresh 2 35) [0x61, 0x62]) = 4136"
  "stack_ptr (zetes_push_string (fresh 2 35) [0x61, 0x62]) = 4112"
  "stack_begin (zetes_push_string (fresh 2 35) [0x61, 0x62]) = 4096"
  by (simp_all add: zetes_push_string_def fresh_2_35_eval stack_defs size_defs c_str_def Let_def)

lemma temp_only_refl [simp]: "temp_only ctx ctx"
  by (simp add: temp_only_def)


lemma temp_only_store [simp]: "temp_only ctx (store_temp ctx bs)"
  by (simp add: temp_only_def store_temp_def)

lemma temp_only_fields:
  "temp_only ctx ctx' \<Longrightarrow>
   result ctx' = result ctx \<and> chars ctx' = chars ctx \<and> slots ctx' = slots ctx \<and>
   arrays ctx' = arrays ctx \<and> objects ctx' = objects ctx \<and> buffer_end ctx' = buffer_end ctx \<and>
   buffer_ptr ctx' = buffer_ptr ctx \<and> stack_ptr ctx' = stack_ptr ctx \<and>
   stack_end ctx' = stack_end ctx \<and> stack_begin ctx' = stack_begin ctx \<and>
   buffer_begin ctx' = buffer_begin ctx"
  by (auto simp: temp_only_def dest: arg_cong[where f=result] arg_cong[where f=chars]
      arg_cong[where f=slots] arg_cong[where f=arrays] arg_cong[where f=objects]
      arg_cong[where f=buffer_end] arg_cong[where f=buffer_ptr] arg_cong[where f=stack_ptr]
      arg_cong[where f=stack_end] arg_cong[where f=stack_begin] arg_cong[where f=buffer_begin])

lemma temp_only_get_string: "temp_only ctx ctx' \<Longrightarrow> get_string ctx' a = get_string ctx a"
  using temp_only_fields[of ctx ctx'] by (simp add: get_string_def)








lemma length_store_temp_take:
  "length bs \<le> length (temp ctx) \<Longrightarrow> take (length bs) (temp (store_temp ctx bs)) = bs"
  by (simp add: store_temp_def)


lemma render_ascii_unescaped: "\<not> escaped c \<Longrightarrow> render_ascii c = [c]"
  by (auto simp: escaped_def render_ascii_def short_escape_def)

lemma render_ascii_run: "\<forall>c\<in>set run. \<not> escaped c \<Longrightarrow> concat (map render_ascii run) = run"
  by (induction run) (simp_all add: render_ascii_unescaped)





lemma TRAILING_unit: "TRAILING ! unat (c :: byte) = unit_length c - 1"
proof -
  have "unat c < 256" using unsigned_less[of c, where 'a = nat] by simp
  then show ?thesis
    by (simp add: TRAILING_def nth_append unit_length_def word_less_nat_alt) arith
qed



lemma decode_utf8_cut:
  "length cs < unit_length c - 1 \<Longrightarrow> decode_utf8 (c # cs) code = (-1, code)"
  by (simp add: decode_utf8_def TRAILING_unit Let_def)































lemma delivered_r_ctx [simp]: "delivered (st\<lparr>r_ctx := x\<rparr>) = delivered st"
  by (simp add: delivered_def)

lemma delivered_token_type [simp]: "delivered (st\<lparr>token_type := x\<rparr>) = delivered st"
  by (simp add: delivered_def)

lemma delivered_token_value [simp]: "delivered (st\<lparr>token_value := x\<rparr>) = delivered st"
  by (simp add: delivered_def)

lemma delivered_set_error [simp]: "delivered (r_set_error st r) = delivered st"
  by (simp add: r_set_error_def)

lemma delivered_append_string [simp]: "delivered (append_string st c) = delivered st"
  by (simp add: append_string_def Let_def)

lemma token_type_set_error [simp]: "token_type (r_set_error st r) = token_type st"
  by (simp add: r_set_error_def)

lemma token_type_append_string [simp]: "token_type (append_string st c) = token_type st"
  by (simp add: append_string_def Let_def)




lemma next_char_buffer:
  "prev_char st = 0 \<Longrightarrow> r_buffer st = c # cs \<Longrightarrow> next_char st = (c, st\<lparr>r_buffer := cs\<rparr>)"
  by (simp add: next_char_def)













lemma lex_hex_4_nul:
  "prev_char st = 0 \<Longrightarrow> r_buffer st = 0 # rest \<Longrightarrow>
   lex_hex 4 st cp =
     (None, st\<lparr>r_buffer := rest, r_ctx := (r_ctx st)\<lparr>result := ZETES_RESULT_INVALID_STRING\<rparr>\<rparr>)"
proof -
  assume a: "prev_char st = 0" "r_buffer st = 0 # rest"
  have "(4 :: nat) = Suc 3" by simp
  then show ?thesis
    using a
    by (simp only: lex_hex.simps)
       (simp add: next_char_buffer is_digit_def is_lower_hex_def is_upper_hex_def)
qed

lemma lex_string_hex_nul:
  "prev_char st = 0 \<Longrightarrow> r_buffer st = 0x5C # 0x75 # 0 # rest \<Longrightarrow>
   lex_string st =
     st\<lparr>r_buffer := rest, r_ctx := (r_ctx st)\<lparr>result := ZETES_RESULT_INVALID_STRING\<rparr>\<rparr>"
  unfolding lex_string_def
  by (subst lex_string_loop.simps)
     (simp add: next_char_buffer is_end_of_input_def is_control_def is_quote_def is_escape_def
        lex_escape_def lex_hex_4_nul)



lemma reading_simps [simp]:
  "prev_char (reading bs) = 0" "r_buffer (reading bs) = bs" "r_source (reading bs) = []"
  "token_type (reading bs) = TOKEN_TYPE_UNDEFINED" "r_ctx (reading bs) = fresh 2 64"
  by (simp_all add: reading_def)

lemma append_string_fields [simp]:
  "prev_char (append_string st c) = prev_char st"
  "r_buffer (append_string st c) = r_buffer st"
  "r_source (append_string st c) = r_source st"
  "token_value (append_string st c) = token_value st"
  by (simp_all add: append_string_def r_set_error_def Let_def)
























lemma number_exponent_token_type:
  "token_type (number_exponent c3 st3 v3 exp3 is_negative) = TOKEN_TYPE_LITERAL \<or>
   (\<exists>s. number_exponent c3 st3 v3 exp3 is_negative = r_set_error s ZETES_RESULT_INVALID_NUMBER)"
  by (auto simp: number_exponent_def number_finish_def Let_def split: prod.splits)










lemma prev_char_idle: "prev_char s = 0 \<Longrightarrow> s\<lparr>prev_char := 0\<rparr> = s"
  by (cases s) simp














section \<open>Array indexing (C2)\<close>

text \<open>
  C2. The claim: on an Array of size n, \<open>zetes_array_index(i)\<close> pushes a copy of the i-th
  element for i < n, and for i >= n fails with Index-Out-Of-Bounds without altering the
  stack. The loop of the source counts the index down without following \<open>next\<close>, so on the
  array [10, 20] the call with index 1 pushes the element 10, not 20, and the call with
  index 2 succeeds and pushes as well.
\<close>

theorem array_index_returns_first_element:
  "fst (zetes_array_size two_numbers) = 2 \<and>
   arrays two_numbers (v_ptr (variant (slots two_numbers (stack_ptr two_numbers)))) ! 1 =
     \<lparr>type = ZETES_TYPE_NUMBER, variant = V_number 20\<rparr> \<and>
   result (zetes_array_index two_numbers 1) = ZETES_RESULT_OK \<and>
   slots (zetes_array_index two_numbers 1) (stack_ptr (zetes_array_index two_numbers 1)) =
     \<lparr>type = ZETES_TYPE_NUMBER, variant = V_number 10\<rparr> \<and>
   result (zetes_array_index two_numbers 2) = ZETES_RESULT_OK \<and>
   stack_ptr (zetes_array_index two_numbers 2) \<noteq> stack_ptr two_numbers"
  by (simp add: two_numbers_eval zetes_array_index_def zetes_array_size_def stack_defs size_defs
        array_index_loop_stuck Let_def)

section \<open>Reset (C3)\<close>

text \<open>
  C3. The claim: \<open>zetes_reset\<close> yields a clean OK context with the arena cursor exactly as
  after initialisation, so that later allocations never overlap the storage of the operand
  stack. After \<open>zetes_init\<close> with depth 2 over 64 bytes at 4096 the stack lies in
  [4096, 4128) and the cursor is 4128. \<open>zetes_reset\<close> sets the cursor to \<open>buffer_begin\<close>,
  4096, and the next allocation is handed the address 4096, inside the stack storage. The
  status and the stack pointer are reset as claimed.
\<close>

theorem reset_rewinds_into_stack_storage:
  "buffer_ptr (fresh 2 64) = 4128 \<and>
   stack_begin (fresh 2 64) = 4096 \<and> stack_end (fresh 2 64) = 4128 \<and>
   result (zetes_reset (fresh 2 64)) = ZETES_RESULT_OK \<and>
   stack_ptr (zetes_reset (fresh 2 64)) = stack_end (fresh 2 64) \<and>
   buffer_ptr (zetes_reset (fresh 2 64)) = 4096 \<and>
   buffer_ptr (zetes_reset (fresh 2 64)) \<noteq> buffer_ptr (fresh 2 64) \<and>
   fst (alloc (zetes_reset (fresh 2 64)) sizeof_array) = 4096 \<and>
   stack_begin (fresh 2 64) \<le> fst (alloc (zetes_reset (fresh 2 64)) sizeof_array) \<and>
   fst (alloc (zetes_reset (fresh 2 64)) sizeof_array) < stack_end (fresh 2 64)"
  by (simp add: fresh_2_64_eval zetes_reset_def alloc_def arena_space_def size_defs)

section \<open>Sticky error (C4)\<close>

text \<open>
  C4. Once the status of a context is not OK, every operation on it (all but
  \<open>zetes_init\<close>, \<open>zetes_cleanup\<close> and \<open>zetes_reset\<close>) leaves the whole context as it is,
  so the arena cursor, the stack pointer, the stack contents and the status, and returns
  the default of its type: NONE for \<open>zetes_type\<close>, false for \<open>zetes_pop_bool\<close> and
  \<open>zetes_object_has\<close>, 0 for \<open>zetes_pop_number\<close> and the size queries, NULL for
  \<open>zetes_pop_string\<close>, the unchanged status for \<open>zetes_result\<close>, \<open>zetes_write\<close> and
  \<open>zetes_read\<close>. The writer and the reader return without calling their callbacks.
\<close>

theorem sticky_error:
  assumes "result ctx \<noteq> ZETES_RESULT_OK"
  shows "run_op op ctx = Some (default_ret op ctx, ctx) \<and>
         zetes_write fuel fmt ctx script =
           Some (result ctx, \<lparr>w_ctx = ctx, w_script = script, w_output = []\<rparr>) \<and>
         (\<exists>st. zetes_read fuel ctx source = Some (result ctx, st) \<and>
               r_ctx st = ctx \<and> r_source st = source)"
proof -
  have n: "\<not> ok ctx" using assms by (simp add: ok_def)
  have "run_op op ctx = Some (default_ret op ctx, ctx)"
    by (cases op)
       (simp_all add: n validate_not_ok stack_emplace_not_ok zetes_result_def
          zetes_push_null_def zetes_push_bool_def zetes_push_number_def zetes_push_string_def
          zetes_push_new_array_def zetes_push_new_object_def zetes_type_def zetes_pop_def
          zetes_pop_null_def zetes_pop_bool_def zetes_pop_number_def zetes_pop_string_def
          zetes_array_size_def zetes_array_index_def zetes_array_append_def
          zetes_object_size_def zetes_object_index_def zetes_object_has_def zetes_object_get_def
          zetes_object_set_def zetes_write_def zetes_read_def stack_validate_def Let_def)
  then show ?thesis using n by (simp add: zetes_write_def zetes_read_def Let_def)
qed

theorem sticky_error_witness:
  "result (zetes_pop (fresh 2 64)) \<noteq> ZETES_RESULT_OK \<and>
   run_op (Op_push_string [0x61]) (zetes_pop (fresh 2 64)) =
     Some (Ret_void, zetes_pop (fresh 2 64)) \<and>
   run_op Op_pop_string (zetes_pop (fresh 2 64)) = Some (Ret_ptr 0, zetes_pop (fresh 2 64)) \<and>
   zetes_write 3 (\<lambda>x. []) (zetes_pop (fresh 2 64)) [] =
     Some (ZETES_RESULT_STACK_EMPTY,
           \<lparr>w_ctx = zetes_pop (fresh 2 64), w_script = [], w_output = []\<rparr>)"
proof -
  have h: "result (zetes_pop (fresh 2 64)) = ZETES_RESULT_STACK_EMPTY"
    by (simp add: zetes_pop_def fresh_2_64_eval stack_defs size_defs Let_def)
  then have h': "result (zetes_pop (fresh 2 64)) \<noteq> ZETES_RESULT_OK" by simp
  show ?thesis
    using sticky_error[OF h', of "Op_push_string [0x61]" 3 "\<lambda>x. []" "[]"]
      sticky_error[OF h', of Op_pop_string] h
    by simp
qed

section \<open>Object size and index (C5)\<close>

text \<open>
  C5. The claim: on an OK context whose top is an Object, \<open>zetes_object_size\<close> and
  \<open>zetes_object_index\<close> do not fail with Type-Mismatch, and on a top that is not an Object
  they do. Both guards of the source compare the tag with \<open>ZETES_TYPE_ARRAY\<close>: on a new
  Object both calls fail with Type-Mismatch, and on a new Array \<open>zetes_object_size\<close> does
  not fail.
\<close>

theorem object_queries_reject_objects:
  "fst (zetes_type (zetes_push_new_object (fresh 2 64))) = ZETES_TYPE_OBJECT \<and>
   result (snd (zetes_object_size (zetes_push_new_object (fresh 2 64)))) =
     ZETES_RESULT_TYPE_MISMATCH \<and>
   result (zetes_object_index (zetes_push_new_object (fresh 2 64)) 0) =
     ZETES_RESULT_TYPE_MISMATCH \<and>
   fst (zetes_type (zetes_push_new_array (fresh 2 64))) = ZETES_TYPE_ARRAY \<and>
   result (snd (zetes_object_size (zetes_push_new_array (fresh 2 64)))) = ZETES_RESULT_OK"
  by (simp add: new_object_eval new_array_eval zetes_type_def zetes_object_size_def
        zetes_object_index_def stack_defs size_defs Let_def)

section \<open>Out of memory in a push (C6)\<close>

theorem push_string_out_of_memory_moves_stack_counterexample:
  "result (fresh 2 34) = ZETES_RESULT_OK \<and>
   stack_begin (fresh 2 34) < stack_ptr (fresh 2 34) \<and>
   arena_space (fresh 2 34) < length (c_str [0x61, 0x62]) + 1 \<and>
   result (zetes_push_string (fresh 2 34) [0x61, 0x62]) = ZETES_RESULT_OUT_OF_MEMORY \<and>
   stack_ptr (zetes_push_string (fresh 2 34) [0x61, 0x62]) \<noteq> stack_ptr (fresh 2 34)"
  by (simp add: fresh_2_34_eval zetes_push_string_def stack_defs size_defs c_str_def Let_def)

text \<open>
  C6, amended. When a push that allocates (\<open>zetes_push_string\<close>, \<open>zetes_push_new_array\<close>,
  \<open>zetes_push_new_object\<close>) runs on an OK context with a free stack slot and too little
  arena space, it latches Out-Of-Memory and changes nothing else but the stack pointer: the
  arena cursor and the contents of every slot are as before the call, and the stack
  pointer has moved down by the one slot that was reserved and is left unwritten.
\<close>

theorem push_out_of_memory_effect:
  assumes "ok ctx" and "stack_begin ctx < stack_ptr ctx" and "stack_ptr ctx - sizeof_value \<noteq> 0"
  shows "(arena_space ctx < length (c_str v) + 1 \<longrightarrow>
            zetes_push_string ctx v =
              ctx\<lparr>stack_ptr := stack_ptr ctx - sizeof_value,
                  result := ZETES_RESULT_OUT_OF_MEMORY\<rparr>) \<and>
         (arena_space ctx < sizeof_array \<longrightarrow>
            zetes_push_new_array ctx =
              ctx\<lparr>stack_ptr := stack_ptr ctx - sizeof_value,
                  result := ZETES_RESULT_OUT_OF_MEMORY\<rparr>) \<and>
         (arena_space ctx < sizeof_object \<longrightarrow>
            zetes_push_new_object ctx =
              ctx\<lparr>stack_ptr := stack_ptr ctx - sizeof_value,
                  result := ZETES_RESULT_OUT_OF_MEMORY\<rparr>)"
  using assms
  by (simp add: zetes_push_string_def zetes_push_new_array_def zetes_push_new_object_def
        stack_emplace_def alloc_def set_error_def ok_def arena_space_def Let_def)

theorem push_out_of_memory_effect_witness:
  "ok (fresh 2 34) \<and> stack_begin (fresh 2 34) < stack_ptr (fresh 2 34) \<and>
   stack_ptr (fresh 2 34) - sizeof_value \<noteq> 0 \<and>
   arena_space (fresh 2 34) < length (c_str [0x61, 0x62]) + 1 \<and>
   arena_space (fresh 2 34) < sizeof_array \<and>
   arena_space (fresh 2 34) < sizeof_object \<and>
   zetes_push_string (fresh 2 34) [0x61, 0x62] =
     (fresh 2 34)\<lparr>stack_ptr := 4112, result := ZETES_RESULT_OUT_OF_MEMORY\<rparr> \<and>
   zetes_push_new_array (fresh 2 34) =
     (fresh 2 34)\<lparr>stack_ptr := 4112, result := ZETES_RESULT_OUT_OF_MEMORY\<rparr> \<and>
   zetes_push_new_object (fresh 2 34) =
     (fresh 2 34)\<lparr>stack_ptr := 4112, result := ZETES_RESULT_OUT_OF_MEMORY\<rparr>"
proof -
  have h: "ok (fresh 2 34)" "stack_begin (fresh 2 34) < stack_ptr (fresh 2 34)"
    "stack_ptr (fresh 2 34) - sizeof_value \<noteq> 0"
    by (simp_all add: fresh_2_34_eval ok_def size_defs)
  have a: "arena_space (fresh 2 34) < length (c_str [0x61, 0x62]) + 1"
    "arena_space (fresh 2 34) < sizeof_array" "arena_space (fresh 2 34) < sizeof_object"
    by (simp_all add: fresh_2_34_eval arena_space_def size_defs c_str_def)
  show ?thesis
    using push_out_of_memory_effect[OF h, of "[0x61, 0x62]"] h a
    by (simp add: fresh_2_34_eval size_defs)
qed

section \<open>The queries (C7)\<close>

theorem queries_latch_errors_counterexample:
  "result (fresh 2 64) = ZETES_RESULT_OK \<and>
   zetes_type (fresh 2 64) =
     (ZETES_TYPE_NONE, (fresh 2 64)\<lparr>result := ZETES_RESULT_STACK_EMPTY\<rparr>) \<and>
   result (zetes_push_new_array (fresh 2 64)) = ZETES_RESULT_OK \<and>
   result (snd (zetes_object_has (zetes_push_new_array (fresh 2 64)) [0x61])) =
     ZETES_RESULT_TYPE_MISMATCH"
  by (simp add: fresh_2_64_eval new_array_eval zetes_type_def zetes_object_has_def stack_defs
        size_defs Let_def)

text \<open>
  C7, amended. \<open>zetes_type\<close> returns the tag of the top value and leaves the context as
  it is when the stack is not empty; on the empty stack of an OK context it returns NONE
  and latches Stack-Empty; on a context that is not OK it returns NONE and changes
  nothing. \<open>zetes_object_has\<close> never changes the stack pointer, the slots or the arena; on
  a top that is an Object it returns whether a member has the key and leaves the status as
  it is; on an empty stack it returns false and latches Stack-Empty, and on a top that is
  not an Object it returns false and latches Type-Mismatch.
\<close>

theorem queries_effect:
  "zetes_type ctx =
     (if ok ctx \<and> 1 \<le> stack_count ctx then (type (slots ctx (stack_ptr ctx)), ctx)
      else if ok ctx then (ZETES_TYPE_NONE, ctx\<lparr>result := ZETES_RESULT_STACK_EMPTY\<rparr>)
      else (ZETES_TYPE_NONE, ctx)) \<and>
   zetes_object_has ctx key =
     (if ok ctx \<and> 1 \<le> stack_count ctx \<and> type (slots ctx (stack_ptr ctx)) = ZETES_TYPE_OBJECT
      then (c_str key \<in> set (map (\<lambda>m. get_string ctx (fst m))
                             (objects ctx (v_ptr (variant (slots ctx (stack_ptr ctx)))))), ctx)
      else if ok ctx \<and> 1 \<le> stack_count ctx
      then (False, ctx\<lparr>result := ZETES_RESULT_TYPE_MISMATCH\<rparr>)
      else if ok ctx then (False, ctx\<lparr>result := ZETES_RESULT_STACK_EMPTY\<rparr>)
      else (False, ctx))"
  by (simp add: zetes_type_def zetes_object_has_def validate_def stack_validate_def
        type_validate_def set_error_def ok_def find_member_iff Let_def)

section \<open>String rendering (C8)\<close>




section \<open>Arena bounds (C9)\<close>

text \<open>
  C9. The claim: the arena cursor never exceeds the arena end, and every successful
  \<open>alloc\<close> leaves the cursor at or before \<open>buffer_end\<close>. \<open>alloc\<close> compares the space left
  with the size asked for and then rounds the new cursor up to the alignment. With a
  buffer of 35 bytes at 4096 and a stack of depth 2 the cursor is 4128 and the end 4131;
  pushing the string "ab" takes the three bytes left and moves the cursor to 4136, past
  the end. The space left then wraps to a huge \<open>size_t\<close>, and a second push is handed the
  address 4136, outside the buffer.
\<close>

theorem alloc_moves_cursor_past_end:
  "result (fresh 2 35) = ZETES_RESULT_OK \<and>
   buffer_ptr (fresh 2 35) \<le> buffer_end (fresh 2 35) \<and>
   result (zetes_push_string (fresh 2 35) [0x61, 0x62]) = ZETES_RESULT_OK \<and>
   buffer_end (zetes_push_string (fresh 2 35) [0x61, 0x62]) = 4131 \<and>
   buffer_ptr (zetes_push_string (fresh 2 35) [0x61, 0x62]) = 4136 \<and>
   result (zetes_push_string (zetes_push_string (fresh 2 35) [0x61, 0x62]) [0x63]) =
     ZETES_RESULT_OK \<and>
   v_ptr (variant (slots (zetes_push_string (zetes_push_string (fresh 2 35) [0x61, 0x62]) [0x63])
     4096)) = 4136"
  by (simp add: fresh_2_35_eval push_ab_eval zetes_push_string_def stack_defs size_defs c_str_def
        Let_def)

section \<open>NUL bytes in the input (C10)\<close>




end
